theory Spec2Isabelle
  imports Main "HOL-Library.AList"
begin

section \<open>Silent Lease: auth and shared logic over localStorage\<close>

text \<open>
  The script keeps everything in the browser's localStorage: a directory of user records, the
  current session, and, per logged-in email, the quiz answers (exit plan), the task map and a
  combined app state. Every value is written with JSON.stringify and read with JSON.parse.

  The embedding follows the script function by function. What the platform provides is modelled
  as follows.
  \<^item> Strings are lists of characters; a character is a code unit in the range 0..255
    (Latin-1), which covers every character class the script tests.
  \<^item> A JavaScript value is JSON data plus \<open>undefined\<close>. A number is represented by the
    text that \<open>String()\<close> prints of it (\<open>0\<close>, \<open>-2.5\<close>, \<open>1e+21\<close>, \<open>NaN\<close>): the script only
    tests numbers for truthiness and prints them. An array carries the extra named
    properties an assignment may give it; JSON.stringify does not print them.
  \<^item> Property lookup finds own properties. Members inherited from the built-in prototypes
    (\<open>constructor\<close>, \<open>toString\<close>, ...) are not modelled; the property names the script
    reads are fixed field names or email keys.
  \<^item> A stored text is represented by what JSON.parse makes of it: the empty text, a text
    that JSON.parse rejects, or the value it parses to.
  \<^item> An exception is a value: a computation that may throw returns \<open>exn + 'a\<close>, and where
    the storage written so far matters, the thrown side carries the storage.
\<close>

subsection \<open>Strings\<close>

definition code :: "char \<Rightarrow> nat" where
  "code c = of_char c"

text \<open>The regular expression class \<open>\s\<close> and the characters \<open>trim\<close> strips: TAB, LF, VT, FF,
  CR, SPACE and the no-break space.\<close>

definition is_space :: "char \<Rightarrow> bool" where
  "is_space c = (code c = 9 \<or> code c = 10 \<or> code c = 11 \<or> code c = 12 \<or> code c = 13
     \<or> code c = 32 \<or> code c = 160)"

text \<open>\<open>\d\<close>\<close>

definition is_digit :: "char \<Rightarrow> bool" where
  "is_digit c = (48 \<le> code c \<and> code c \<le> 57)"

text \<open>\<open>[a-zA-Z0-9@._-]\<close>\<close>

definition is_key_char :: "char \<Rightarrow> bool" where
  "is_key_char c = ((97 \<le> code c \<and> code c \<le> 122) \<or> (65 \<le> code c \<and> code c \<le> 90)
     \<or> is_digit c \<or> c = CHR ''@'' \<or> c = CHR ''.'' \<or> c = CHR ''_'' \<or> c = CHR ''-'')"

text \<open>String.prototype.toLowerCase on Latin-1: A-Z and the accented capitals 0xC0-0xDE
  (without the multiplication sign 0xD7) move up by 32.\<close>

definition lower_char :: "char \<Rightarrow> char" where
  "lower_char c =
     (if (65 \<le> code c \<and> code c \<le> 90) \<or> (192 \<le> code c \<and> code c \<le> 222 \<and> code c \<noteq> 215)
      then char_of (code c + 32) else c)"

definition toLowerCase :: "string \<Rightarrow> string" where
  "toLowerCase s = map lower_char s"

definition trim :: "string \<Rightarrow> string" where
  "trim s = rev (dropWhile is_space (rev (dropWhile is_space s)))"

fun starts_with :: "string \<Rightarrow> string \<Rightarrow> bool" where
  "starts_with s [] = True"
| "starts_with [] (c # t) = False"
| "starts_with (d # s) (c # t) = (d = c \<and> starts_with s t)"

text \<open>\<open>s.includes(t)\<close>\<close>

fun str_includes :: "string \<Rightarrow> string \<Rightarrow> bool" where
  "str_includes [] t = (t = [])"
| "str_includes (d # s) t = (starts_with (d # s) t \<or> str_includes s t)"

text \<open>Decimal digits of a natural number, as String(n) prints them.\<close>

fun dec :: "nat \<Rightarrow> string" where
  "dec n = (if n < 10 then [char_of (48 + n)] else dec (n div 10) @ [char_of (48 + n mod 10)])"

declare dec.simps [simp del]

fun join :: "string \<Rightarrow> string list \<Rightarrow> string" where
  "join sep [] = []"
| "join sep [x] = x"
| "join sep (x # y # ys) = x @ sep @ join sep (y # ys)"

subsection \<open>JavaScript values\<close>

datatype jsval =
    Undefined
  | Null
  | Bool bool
  | Num string
  | Str string
  | Arr "jsval list" "(string \<times> jsval) list"
  | Obj "(string \<times> jsval) list"

datatype exn = TypeError | SyntaxError | RangeError | QuotaExceededError

text \<open>ToBoolean: what \<open>if (v)\<close>, \<open>!!v\<close>, \<open>v || w\<close> and \<open>v && w\<close> test. The falsy numbers
  are zero (plus or minus, both printed \<open>0\<close>) and NaN.\<close>

fun truthy :: "jsval \<Rightarrow> bool" where
  "truthy Undefined = False"
| "truthy Null = False"
| "truthy (Bool b) = b"
| "truthy (Num t) = (t \<noteq> ''0'' \<and> t \<noteq> ''NaN'')"
| "truthy (Str s) = (s \<noteq> [])"
| "truthy (Arr xs ps) = True"
| "truthy (Obj ps) = True"

text \<open>\<open>a || b\<close>\<close>

definition js_or :: "jsval \<Rightarrow> jsval \<Rightarrow> jsval" where
  "js_or a b = (if truthy a then a else b)"

text \<open>\<open>v != null\<close> (loose: false for null and for undefined)\<close>

fun not_nullish :: "jsval \<Rightarrow> bool" where
  "not_nullish Undefined = False"
| "not_nullish Null = False"
| "not_nullish v = True"

text \<open>\<open>typeof v === 'object'\<close>\<close>

fun typeof_object :: "jsval \<Rightarrow> bool" where
  "typeof_object Null = True"
| "typeof_object (Arr xs ps) = True"
| "typeof_object (Obj ps) = True"
| "typeof_object v = False"

text \<open>The own enumerable properties of a value, as object spread \<open>{...v}\<close> copies them:
  an object's properties, an array's elements under their indices followed by its named
  properties, a string's characters under their indices, nothing for the other values.\<close>

fun own_props :: "jsval \<Rightarrow> (string \<times> jsval) list" where
  "own_props (Obj ps) = ps"
| "own_props (Arr xs ps) = zip (map dec [0..<length xs]) xs @ ps"
| "own_props (Str s) = zip (map dec [0..<length s]) (map (\<lambda>c. Str [c]) s)"
| "own_props v = []"

definition lookup :: "(string \<times> jsval) list \<Rightarrow> string \<Rightarrow> jsval" where
  "lookup ps k = (case map_of ps k of None \<Rightarrow> Undefined | Some v \<Rightarrow> v)"

text \<open>The value of an own property as a spread copies it (of a name listed twice, the
  value defined last), or \<open>None\<close> when the value has no own property of that name.\<close>

definition own_value :: "jsval \<Rightarrow> string \<Rightarrow> jsval option" where
  "own_value v k = map_of (rev (own_props v)) k"

text \<open>\<open>v.k\<close> and \<open>v[k]\<close>: a TypeError on null and undefined.\<close>

fun get_prop :: "jsval \<Rightarrow> string \<Rightarrow> exn + jsval" where
  "get_prop Undefined k = Inl TypeError"
| "get_prop Null k = Inl TypeError"
| "get_prop (Obj ps) k = Inr (lookup ps k)"
| "get_prop (Arr xs ps) k =
     Inr (if k = ''length'' then Num (dec (length xs)) else lookup (own_props (Arr xs ps)) k)"
| "get_prop (Str s) k =
     Inr (if k = ''length'' then Num (dec (length s)) else lookup (own_props (Str s)) k)"
| "get_prop v k = Inr Undefined"

text \<open>An object literal followed by a spread, \<open>{k1: v1, ..., ...v}\<close>: the properties of
  \<open>v\<close> are defined one after the other over the literal's, each replacing the value of a
  name already there and keeping its place.\<close>

definition spread :: "(string \<times> jsval) list \<Rightarrow> jsval \<Rightarrow> (string \<times> jsval) list" where
  "spread base v = foldl (\<lambda>acc p. AList.update (fst p) (snd p) acc) base (own_props v)"

text \<open>JSON.stringify followed by JSON.parse: a property whose value is undefined is left
  out, an undefined array element (or a hole) is printed as null, an array's named
  properties are not printed, and NaN and the infinities are printed as null.\<close>

fun json_of :: "jsval \<Rightarrow> jsval" where
  "json_of (Arr xs ps) = Arr (map (\<lambda>x. if x = Undefined then Null else json_of x) xs) []"
| "json_of (Obj ps) =
     Obj (map (\<lambda>p. (fst p, json_of (snd p))) (filter (\<lambda>p. snd p \<noteq> Undefined) ps))"
| "json_of (Num t) =
     (if t = ''NaN'' \<or> t = ''Infinity'' \<or> t = ''-Infinity'' then Null else Num t)"
| "json_of v = v"

text \<open>Whether a name is among the own properties listed.\<close>

definition has_own :: "(string \<times> jsval) list \<Rightarrow> string \<Rightarrow> bool" where
  "has_own ps k = list_ex (\<lambda>p. fst p = k) ps"

text \<open>The results of a list of conversions, or the first exception among them.\<close>

fun collect :: "(exn + 'a) list \<Rightarrow> exn + 'a list" where
  "collect [] = Inr []"
| "collect (Inl x # rs) = Inl x"
| "collect (Inr v # rs) = (case collect rs of Inl x \<Rightarrow> Inl x | Inr vs \<Rightarrow> Inr (v # vs))"

text \<open>\<open>String(v)\<close>. An object is converted through its \<open>toString\<close> method, then its
  \<open>valueOf\<close> method. The inherited \<open>toString\<close> prints \<open>[object Object]\<close>; an own property
  \<open>toString\<close> hides it, and as no value of the model is a function and the inherited
  \<open>valueOf\<close> returns the object itself, the conversion then throws a TypeError. An array's
  inherited \<open>toString\<close> calls \<open>join\<close>, which prints null and undefined elements as the
  empty string and converts the others; with an own property \<open>join\<close> (not a function) it
  prints \<open>[object Array]\<close> instead.\<close>

fun String_of :: "jsval \<Rightarrow> exn + string" where
  "String_of Undefined = Inr ''undefined''"
| "String_of Null = Inr ''null''"
| "String_of (Bool b) = Inr (if b then ''true'' else ''false'')"
| "String_of (Num t) = Inr t"
| "String_of (Str s) = Inr s"
| "String_of (Arr xs ps) =
     (if has_own ps ''toString'' then Inl TypeError
      else if has_own ps ''join'' then Inr ''[object Array]''
      else (case collect (map (\<lambda>x. if x = Undefined \<or> x = Null then Inr []
                                      else String_of x) xs) of
          Inl x \<Rightarrow> Inl x
        | Inr parts \<Rightarrow> Inr (join '','' parts)))"
| "String_of (Obj ps) =
     (if has_own ps ''toString'' then Inl TypeError else Inr ''[object Object]'')"

text \<open>An array index is a canonical decimal numeral.\<close>

definition index_of :: "string \<Rightarrow> nat option" where
  "index_of k =
     (if k \<noteq> [] \<and> list_all is_digit k \<and> (k = ''0'' \<or> hd k \<noteq> CHR ''0'')
      then Some (foldl (\<lambda>a c. 10 * a + (code c - 48)) 0 k) else None)"

text \<open>\<open>v[k] = w\<close> outside strict mode (the script is a classic script without
  \<open>'use strict'\<close>): a TypeError on null and undefined, ignored on the other primitives. An array
  takes an index (growing with holes, which read as undefined) or a named property. Assigning
  an array's \<open>length\<close> is answered with a RangeError, which is what an object or a
  non-numeric string as the new length gives; no assignment of the script uses that name.\<close>

fun set_prop :: "jsval \<Rightarrow> string \<Rightarrow> jsval \<Rightarrow> exn + jsval" where
  "set_prop Undefined k w = Inl TypeError"
| "set_prop Null k w = Inl TypeError"
| "set_prop (Obj ps) k w = Inr (Obj (AList.update k w ps))"
| "set_prop (Arr xs ps) k w =
     (if k = ''length'' then Inl RangeError
      else (case index_of k of
          Some i \<Rightarrow>
            Inr (if i < length xs then Arr (xs[i := w]) ps
                 else Arr (xs @ replicate (i - length xs) Undefined @ [w]) ps)
        | None \<Rightarrow> Inr (Arr xs (AList.update k w ps))))"
| "set_prop v k w = Inr v"

text \<open>\<open>delete v[k]\<close>\<close>

fun del_prop :: "jsval \<Rightarrow> string \<Rightarrow> exn + jsval" where
  "del_prop Undefined k = Inl TypeError"
| "del_prop Null k = Inl TypeError"
| "del_prop (Obj ps) k = Inr (Obj (AList.delete k ps))"
| "del_prop (Arr xs ps) k =
     (if k = ''length'' then Inr (Arr xs ps)
      else (case index_of k of
          Some i \<Rightarrow> Inr (if i < length xs then Arr (xs[i := Undefined]) ps else Arr xs ps)
        | None \<Rightarrow> Inr (Arr xs (AList.delete k ps))))"
| "del_prop v k = Inr v"

subsection \<open>localStorage\<close>

text \<open>A stored text, seen through JSON.parse.\<close>

datatype stored = EmptyText | BadText | Json jsval

text \<open>The storage: its items, and the writes the medium refuses (a full quota); \<open>setItem\<close>
  throws on those.\<close>

record storage =
  items :: "string \<Rightarrow> stored option"
  rejects :: "string \<Rightarrow> stored \<Rightarrow> bool"

definition getItem :: "storage \<Rightarrow> string \<Rightarrow> stored option" where
  "getItem s k = items s k"

definition setItem :: "storage \<Rightarrow> string \<Rightarrow> stored \<Rightarrow> exn + storage" where
  "setItem s k t =
     (if rejects s k t then Inl QuotaExceededError else Inr (s\<lparr>items := (items s)(k \<mapsto> t)\<rparr>))"

definition removeItem :: "storage \<Rightarrow> string \<Rightarrow> storage" where
  "removeItem s k = s\<lparr>items := (items s)(k := None)\<rparr>"

text \<open>\<open>raw ? JSON.parse(raw) : d\<close>: a missing item and the empty text are falsy.\<close>

fun parse_or :: "stored option \<Rightarrow> jsval \<Rightarrow> exn + jsval" where
  "parse_or None d = Inr d"
| "parse_or (Some EmptyText) d = Inr d"
| "parse_or (Some BadText) d = Inl SyntaxError"
| "parse_or (Some (Json v)) d = Inr v"

text \<open>The text \<open>JSON.stringify(v)\<close> as \<open>setItem\<close> stores it. For undefined, JSON.stringify
  returns undefined and setItem stores the text \<open>undefined\<close>, which JSON.parse rejects.\<close>

definition JSON_stringify :: "jsval \<Rightarrow> stored" where
  "JSON_stringify v = (if v = Undefined then BadText else Json (json_of v))"

definition STORAGE_USERS :: string where "STORAGE_USERS = ''silentlease_users''"
definition STORAGE_CURRENT :: string where "STORAGE_CURRENT = ''silentlease_current''"
definition STORAGE_QUIZ :: string where "STORAGE_QUIZ = ''silentlease_exitPlanData''"
definition STORAGE_TASKS :: string where "STORAGE_TASKS = ''silentlease_tasks''"
definition STORAGE_APP_STATE :: string where "STORAGE_APP_STATE = ''silentlease_appState''"

subsection \<open>Session scope\<close>

text \<open>\<open>.replace(/[^a-zA-Z0-9@._-]/g, '_')\<close>\<close>

definition sanitize :: "string \<Rightarrow> string" where
  "sanitize e = map (\<lambda>c. if is_key_char c then c else CHR ''_'') e"

definition getStorageSuffix_try :: "storage \<Rightarrow> exn + string" where
  "getStorageSuffix_try s =
     (case parse_or (getItem s STORAGE_CURRENT) Null of
        Inl e \<Rightarrow> Inl e
      | Inr user \<Rightarrow>
          (if \<not> truthy user then Inr []
           else (case get_prop user ''isLoggedIn'' of
              Inl e \<Rightarrow> Inl e
            | Inr l \<Rightarrow>
                (if \<not> truthy l then Inr []
                 else (case get_prop user ''email'' of
                    Inl e \<Rightarrow> Inl e
                  | Inr em \<Rightarrow>
                      (if truthy em
                       then (case String_of em of
                          Inl e \<Rightarrow> Inl e
                        | Inr printed \<Rightarrow> Inr (CHR ''_'' # sanitize printed))
                       else Inr []))))))"

definition getStorageSuffix :: "storage \<Rightarrow> string" where
  "getStorageSuffix s = (case getStorageSuffix_try s of Inl e \<Rightarrow> [] | Inr r \<Rightarrow> r)"

definition getCurrentUser_try :: "storage \<Rightarrow> exn + jsval" where
  "getCurrentUser_try s =
     (case parse_or (getItem s STORAGE_CURRENT) Null of
        Inl e \<Rightarrow> Inl e
      | Inr user \<Rightarrow>
          (if \<not> truthy user then Inr Null
           else (case get_prop user ''isLoggedIn'' of
              Inl e \<Rightarrow> Inl e
            | Inr l \<Rightarrow> Inr (if truthy l then user else Null))))"

definition getCurrentUser :: "storage \<Rightarrow> jsval" where
  "getCurrentUser s = (case getCurrentUser_try s of Inl e \<Rightarrow> Null | Inr u \<Rightarrow> u)"

subsection \<open>Quiz data, tasks and the combined app state\<close>

definition getExitPlanData :: "storage \<Rightarrow> jsval" where
  "getExitPlanData s =
     (case parse_or (getItem s (STORAGE_QUIZ @ getStorageSuffix s)) Null of
        Inl e \<Rightarrow> Null
      | Inr v \<Rightarrow> v)"

definition getTasks :: "storage \<Rightarrow> jsval" where
  "getTasks s =
     (case parse_or (getItem s (STORAGE_TASKS @ getStorageSuffix s)) (Obj []) of
        Inl e \<Rightarrow> Obj []
      | Inr obj \<Rightarrow> if typeof_object obj \<and> obj \<noteq> Null then obj else Obj [])"

definition saveTasks :: "storage \<Rightarrow> jsval \<Rightarrow> storage \<times> bool" where
  "saveTasks s tasksObj =
     (case setItem s (STORAGE_TASKS @ getStorageSuffix s) (JSON_stringify tasksObj) of
        Inl e \<Rightarrow> (s, False)
      | Inr s' \<Rightarrow> (s', True))"

text \<open>The state returned when anything in \<open>getAppState\<close> throws.\<close>

definition default_state :: jsval where
  "default_state =
     Obj [(''isPlanGenerated'', Bool False), (''exitPlanData'', Null), (''completedTasks'', Obj [])]"

definition getAppState_try :: "storage \<Rightarrow> exn + jsval" where
  "getAppState_try s =
     (let suffix = getStorageSuffix s;
          key = STORAGE_APP_STATE @ suffix;
          raw = getItem s key
      in (case parse_or raw (Obj []) of
          Inl e \<Rightarrow> Inl e
        | Inr state \<Rightarrow>
            (let exitPlan = getExitPlanData s;
                 tasks = getTasks s
             in (case get_prop state ''isPlanGenerated'' of
                Inl e \<Rightarrow> Inl e
              | Inr g \<Rightarrow>
                  (case get_prop state ''exitPlanData'' of
                     Inl e \<Rightarrow> Inl e
                   | Inr d \<Rightarrow>
                       (case get_prop state ''completedTasks'' of
                          Inl e \<Rightarrow> Inl e
                        | Inr c \<Rightarrow>
                            Inr (Obj (spread
                              [(''isPlanGenerated'', Bool (truthy g \<or> truthy exitPlan)),
                               (''exitPlanData'', js_or (js_or d exitPlan) Null),
                               (''completedTasks'', js_or (js_or c tasks) (Obj []))]
                              state))))))))"

definition getAppState :: "storage \<Rightarrow> jsval" where
  "getAppState s = (case getAppState_try s of Inl e \<Rightarrow> default_state | Inr v \<Rightarrow> v)"

text \<open>\<open>{ ...current, ...updates }\<close>\<close>

definition merged :: "storage \<Rightarrow> jsval \<Rightarrow> (string \<times> jsval) list" where
  "merged s updates = spread (spread [] (getAppState s)) updates"

text \<open>The body of \<open>saveAppState\<close>: the storage after its writes, or the exception with the
  storage as the writes before it left it.\<close>

definition saveAppState_try :: "storage \<Rightarrow> jsval \<Rightarrow> exn \<times> storage + storage" where
  "saveAppState_try s updates =
     (let suffix = getStorageSuffix s;
          nxt = merged s updates;
          e = lookup nxt ''exitPlanData'';
          c = lookup nxt ''completedTasks''
      in (case (if not_nullish e then setItem s (STORAGE_QUIZ @ suffix) (JSON_stringify e)
                else Inr s) of
          Inl x \<Rightarrow> Inl (x, s)
        | Inr s1 \<Rightarrow>
            (case (if not_nullish c \<and> typeof_object c
                   then setItem s1 (STORAGE_TASKS @ suffix) (JSON_stringify c) else Inr s1) of
               Inl x \<Rightarrow> Inl (x, s1)
             | Inr s2 \<Rightarrow>
                 (case setItem s2 (STORAGE_APP_STATE @ suffix)
                         (JSON_stringify (Obj
                            [(''isPlanGenerated'', lookup nxt ''isPlanGenerated''),
                             (''exitPlanData'', e),
                             (''completedTasks'', c)])) of
                    Inl x \<Rightarrow> Inl (x, s2)
                  | Inr s3 \<Rightarrow> Inr s3))))"

definition saveAppState :: "storage \<Rightarrow> jsval \<Rightarrow> storage \<times> bool" where
  "saveAppState s updates =
     (case saveAppState_try s updates of Inl (x, s') \<Rightarrow> (s', False) | Inr s' \<Rightarrow> (s', True))"

subsection \<open>Validation\<close>

text \<open>\<open>[^\s@]\<close>\<close>

definition is_addr_char :: "char \<Rightarrow> bool" where
  "is_addr_char c = (\<not> is_space c \<and> c \<noteq> CHR ''@'')"

text \<open>\<open>/^[^\s@]+@[^\s@]+\.[^\s@]+$/.test(email)\<close>: a non-empty local part up to the first
  \<open>@\<close>, and after it a domain without \<open>@\<close> or white space that has a dot with at least one
  character before it and one after it.\<close>

definition isValidEmail :: "string \<Rightarrow> bool" where
  "isValidEmail email =
     (let local_part = takeWhile (\<lambda>c. c \<noteq> CHR ''@'') email;
          rest = dropWhile (\<lambda>c. c \<noteq> CHR ''@'') email
      in local_part \<noteq> [] \<and> list_all is_addr_char local_part \<and> rest \<noteq> [] \<and>
         list_all is_addr_char (tl rest) \<and>
         list_ex (\<lambda>c. c = CHR ''.'') (butlast (tl (tl rest))))"

text \<open>\<open>password && password.length >= 8\<close>, as a condition\<close>

definition isValidPassword :: "string \<Rightarrow> bool" where
  "isValidPassword password = (password \<noteq> [] \<and> 8 \<le> length password)"

text \<open>An argument that may be left out is a \<open>string option\<close>; \<open>None\<close> is undefined.\<close>

definition isValidPhone :: "string option \<Rightarrow> bool" where
  "isValidPhone phone =
     (case phone of
        None \<Rightarrow> True
      | Some p \<Rightarrow>
          (if p = [] \<or> trim p = [] then True
           else (let cleaned = filter is_digit p
                 in 10 \<le> length cleaned \<and> length cleaned \<le> 15)))"

subsection \<open>User directory\<close>

text \<open>The results \<open>{ success: true }\<close> and \<open>{ success: false, error: ... }\<close>, the error named
  after its message:
  \<^item> \<open>AccountExists\<close>: An account with this email already exists.
  \<^item> \<open>InvalidEmail\<close>: Please enter a valid email address.
  \<^item> \<open>WeakPassword\<close>: Password must be at least 8 characters.
  \<^item> \<open>InvalidPhone\<close>: Please enter a valid phone number (10-15 digits).
  \<^item> \<open>NoAccount\<close>: No account found with this email address.
  \<^item> \<open>WrongPassword\<close>: The password you entered is incorrect.
  \<^item> \<open>NotLoggedIn\<close>: Not logged in.
  \<^item> \<open>EmailTaken\<close>: This email is already taken by another account.
  \<^item> \<open>InvalidPhoneUpdate\<close>: Please enter a valid phone number.\<close>

datatype message =
    AccountExists | InvalidEmail | WeakPassword | InvalidPhone | NoAccount | WrongPassword
  | NotLoggedIn | EmailTaken | InvalidPhoneUpdate

datatype outcome = Success | Failure message

definition bind :: "exn + 'a \<Rightarrow> ('a \<Rightarrow> exn + 'b) \<Rightarrow> exn + 'b" where
  "bind m f = (case m of Inl x \<Rightarrow> Inl x | Inr v \<Rightarrow> f v)"

definition getUsers :: "storage \<Rightarrow> jsval" where
  "getUsers s =
     (case parse_or (getItem s STORAGE_USERS) (Obj []) of Inl e \<Rightarrow> Obj [] | Inr v \<Rightarrow> v)"

definition saveUsers :: "storage \<Rightarrow> jsval \<Rightarrow> exn + storage" where
  "saveUsers s users = setItem s STORAGE_USERS (JSON_stringify users)"

text \<open>\<open>(x || '').trim()\<close>\<close>

definition trimmed :: "string option \<Rightarrow> string" where
  "trimmed x = trim (case x of None \<Rightarrow> [] | Some y \<Rightarrow> y)"

text \<open>\<open>(name || 'User').trim() || 'User'\<close>\<close>

definition name_or_User :: "string option \<Rightarrow> string" where
  "name_or_User name =
     (let n = trim (case name of None \<Rightarrow> ''User'' | Some y \<Rightarrow> if y = [] then ''User'' else y)
      in if n = [] then ''User'' else n)"

text \<open>The session literal of \<open>register\<close>, read from \<open>userData\<close>.\<close>

definition register_session :: "string \<Rightarrow> jsval \<Rightarrow> exn + jsval" where
  "register_session key userData =
     bind (get_prop userData ''name'') (\<lambda>n.
     bind (get_prop userData ''phone'') (\<lambda>p.
     bind (get_prop userData ''address'') (\<lambda>a.
     bind (get_prop userData ''occupation'') (\<lambda>oc.
       Inr (Obj [(''email'', Str key), (''name'', n), (''phone'', p), (''address'', a),
                 (''occupation'', oc), (''isLoggedIn'', Bool True)])))))"

text \<open>\<open>register\<close> has no try/catch: an exception leaves it with the storage as it is then.
  \<open>now\<close> is \<open>new Date().toISOString()\<close>.\<close>

definition register ::
  "storage \<Rightarrow> string \<Rightarrow> string \<Rightarrow> string \<Rightarrow> string option \<Rightarrow> string option \<Rightarrow> string option
     \<Rightarrow> string option \<Rightarrow> exn \<times> storage + outcome \<times> storage" where
  "register s now email password name phone address occupation =
     (let users = getUsers s;
          key = trim (toLowerCase email)
      in (case get_prop users key of
          Inl x \<Rightarrow> Inl (x, s)
        | Inr existing \<Rightarrow>
            (if truthy existing then Inr (Failure AccountExists, s)
             else if \<not> isValidEmail email then Inr (Failure InvalidEmail, s)
             else if \<not> isValidPassword password then Inr (Failure WeakPassword, s)
             else if \<not> isValidPhone phone then Inr (Failure InvalidPhone, s)
             else (case set_prop users key
                           (Obj [(''email'', Str key),
                                 (''password'', Str password),
                                 (''name'', Str (name_or_User name)),
                                 (''phone'', Str (trimmed phone)),
                                 (''address'', Str (trimmed address)),
                                 (''occupation'', Str (trimmed occupation)),
                                 (''registeredAt'', Str now)]) of
                 Inl x \<Rightarrow> Inl (x, s)
               | Inr users' \<Rightarrow>
                   (case saveUsers s users' of
                      Inl x \<Rightarrow> Inl (x, s)
                    | Inr s1 \<Rightarrow>
                        (case bind (get_prop users' key) (register_session key) of
                           Inl x \<Rightarrow> Inl (x, s1)
                         | Inr session \<Rightarrow>
                             (case setItem s1 STORAGE_CURRENT (JSON_stringify session) of
                                Inl x \<Rightarrow> Inl (x, s1)
                              | Inr s2 \<Rightarrow> Inr (Success, s2))))))))"

text \<open>The session literal of \<open>login\<close> and \<open>updateUserProfile\<close>, with \<open>u.phone || ''\<close>.\<close>

definition login_session :: "string \<Rightarrow> jsval \<Rightarrow> exn + jsval" where
  "login_session key u =
     bind (get_prop u ''name'') (\<lambda>n.
     bind (get_prop u ''phone'') (\<lambda>p.
     bind (get_prop u ''address'') (\<lambda>a.
     bind (get_prop u ''occupation'') (\<lambda>oc.
       Inr (Obj [(''email'', Str key), (''name'', n), (''phone'', js_or p (Str [])),
                 (''address'', js_or a (Str [])), (''occupation'', js_or oc (Str [])),
                 (''isLoggedIn'', Bool True)])))))"

definition login :: "storage \<Rightarrow> string \<Rightarrow> string \<Rightarrow> exn \<times> storage + outcome \<times> storage" where
  "login s email password =
     (let users = getUsers s;
          key = trim (toLowerCase email)
      in (case get_prop users key of
          Inl x \<Rightarrow> Inl (x, s)
        | Inr u \<Rightarrow>
            (if \<not> truthy u then Inr (Failure NoAccount, s)
             else (case get_prop u ''password'' of
                 Inl x \<Rightarrow> Inl (x, s)
               | Inr p \<Rightarrow>
                   (if p \<noteq> Str password then Inr (Failure WrongPassword, s)
                    else (case login_session key u of
                        Inl x \<Rightarrow> Inl (x, s)
                      | Inr session \<Rightarrow>
                          (case setItem s STORAGE_CURRENT (JSON_stringify session) of
                             Inl x \<Rightarrow> Inl (x, s)
                           | Inr s1 \<Rightarrow> Inr (Success, s1))))))))"

definition logout :: "storage \<Rightarrow> storage" where
  "logout s = removeItem s STORAGE_CURRENT"

text \<open>The \<open>updates\<close> object of \<open>updateUserProfile\<close>: each field a string or left out.\<close>

record profile_updates =
  u_email :: "string option"
  u_name :: "string option"
  u_phone :: "string option"
  u_address :: "string option"
  u_occupation :: "string option"
  u_password :: "string option"

text \<open>\<open>current.email.toLowerCase()\<close>: only a string has the method.\<close>

fun string_method :: "jsval \<Rightarrow> exn + string" where
  "string_method (Str e) = Inr e"
| "string_method v = Inl TypeError"

text \<open>The migration to a new key:
  \<open>users[newEmail] = { ...users[currentKey] }; delete users[currentKey]\<close>.\<close>

definition migrate :: "jsval \<Rightarrow> string \<Rightarrow> string \<Rightarrow> exn + jsval" where
  "migrate users currentKey newEmail =
     bind (get_prop users currentKey) (\<lambda>old.
     bind (set_prop users newEmail (Obj (spread [] old))) (\<lambda>users1.
       del_prop users1 currentKey))"

text \<open>The assignments to \<open>user\<close> up to \<open>user.email = newEmail\<close>. The phone check returns from
  the function in their middle: \<open>Inr (Inl m)\<close> is that return, \<open>Inr (Inr user)\<close> the record
  after all assignments.\<close>

definition apply_updates ::
  "profile_updates \<Rightarrow> string \<Rightarrow> jsval \<Rightarrow> exn + (message + jsval)" where
  "apply_updates updates newEmail user =
     bind (case u_name updates of
             None \<Rightarrow> Inr user
           | Some n \<Rightarrow> set_prop user ''name'' (Str (if trim n = [] then ''User'' else trim n)))
       (\<lambda>user1.
     if u_phone updates \<noteq> None \<and> \<not> isValidPhone (u_phone updates)
     then Inr (Inl InvalidPhoneUpdate)
     else
     bind (case u_phone updates of
             None \<Rightarrow> Inr user1
           | Some p \<Rightarrow> set_prop user1 ''phone'' (Str (trim p)))
       (\<lambda>user2.
     bind (case u_address updates of
             None \<Rightarrow> Inr user2
           | Some a \<Rightarrow> set_prop user2 ''address'' (Str (trim a)))
       (\<lambda>user3.
     bind (case u_occupation updates of
             None \<Rightarrow> Inr user3
           | Some oc \<Rightarrow> set_prop user3 ''occupation'' (Str (trim oc)))
       (\<lambda>user4.
     bind (case u_password updates of
             None \<Rightarrow> Inr user4
           | Some pw \<Rightarrow>
               (if pw \<noteq> [] \<and> 8 \<le> length pw then set_prop user4 ''password'' (Str pw)
                else Inr user4))
       (\<lambda>user5.
     bind (set_prop user5 ''email'' (Str newEmail))
       (\<lambda>user6. Inr (Inr user6)))))))"

text \<open>\<open>user\<close> is the object held in \<open>users\<close> under \<open>newEmail\<close>: after the assignments the
  directory holds the changed record there.\<close>

definition updateUserProfile ::
  "storage \<Rightarrow> profile_updates \<Rightarrow> exn \<times> storage + outcome \<times> storage" where
  "updateUserProfile s updates =
     (let current = getCurrentUser s
      in if \<not> truthy current then Inr (Failure NotLoggedIn, s)
         else
           (let users = getUsers s
            in (case bind (get_prop current ''email'') string_method of
                Inl x \<Rightarrow> Inl (x, s)
              | Inr cur_email \<Rightarrow>
                  (let currentKey = trim (toLowerCase cur_email);
                       newEmail = trim (toLowerCase
                         (case u_email updates of
                            None \<Rightarrow> cur_email
                          | Some e \<Rightarrow> if e = [] then cur_email else e))
                   in if newEmail \<noteq> currentKey \<and> \<not> isValidEmail newEmail
                      then Inr (Failure InvalidEmail, s)
                      else (case get_prop users newEmail of
                          Inl x \<Rightarrow> Inl (x, s)
                        | Inr taken \<Rightarrow>
                            (if newEmail \<noteq> currentKey \<and> truthy taken
                             then Inr (Failure EmailTaken, s)
                             else (case bind (if newEmail \<noteq> currentKey
                                              then migrate users currentKey newEmail
                                              else Inr users)
                                          (\<lambda>users2.
                                        bind (get_prop users2 newEmail) (\<lambda>user.
                                        bind (apply_updates updates newEmail user) (\<lambda>r.
                                          case r of
                                            Inl m \<Rightarrow> Inr (Inl m)
                                          | Inr user' \<Rightarrow>
                                              bind (set_prop users2 newEmail user') (\<lambda>users3.
                                              bind (login_session newEmail user') (\<lambda>session.
                                                Inr (Inr (users3, session))))))) of
                                 Inl x \<Rightarrow> Inl (x, s)
                               | Inr (Inl m) \<Rightarrow> Inr (Failure m, s)
                               | Inr (Inr (users3, session)) \<Rightarrow>
                                   (case saveUsers s users3 of
                                      Inl x \<Rightarrow> Inl (x, s)
                                    | Inr s1 \<Rightarrow>
                                        (case setItem s1 STORAGE_CURRENT
                                                (JSON_stringify session) of
                                           Inl x \<Rightarrow> Inl (x, s1)
                                         | Inr s2 \<Rightarrow> Inr (Success, s2))))))))))"

subsection \<open>Local tenant tip\<close>

text \<open>The six tip objects, named after their titles; each carries a fixed body text.\<close>

datatype tip =
    StudentsOttawa | StudentsOntario | StudentsQuebec | Students | TenantsOttawa
  | TenantsOntario

fun tip_title :: "tip \<Rightarrow> string" where
  "tip_title StudentsOttawa = ''Tip for students in Ottawa''"
| "tip_title StudentsOntario = ''Tip for students in Ontario''"
| "tip_title StudentsQuebec = ''Tip for students in Quebec''"
| "tip_title Students = ''Tip for students''"
| "tip_title TenantsOttawa = ''Tip for tenants in Ottawa''"
| "tip_title TenantsOntario = ''Tip for Ontario tenants''"

definition getLocalTenantTip :: "string option \<Rightarrow> string option \<Rightarrow> tip option" where
  "getLocalTenantTip occupation cityProvince =
     (let city = toLowerCase (case cityProvince of None \<Rightarrow> [] | Some c \<Rightarrow> c);
          occ = toLowerCase (case occupation of None \<Rightarrow> [] | Some oc \<Rightarrow> oc);
          tips =
            (if occ = ''student'' then
               (if str_includes city ''ottawa'' then [StudentsOttawa]
                else if str_includes city ''toronto'' \<or> str_includes city ''ontario''
                  then [StudentsOntario]
                else if str_includes city ''montreal'' \<or> str_includes city ''quebec''
                  then [StudentsQuebec]
                else [Students])
             else if str_includes city ''ottawa'' then [TenantsOttawa]
             else if str_includes city ''ontario'' then [TenantsOntario]
             else [])
      in (case tips of [] \<Rightarrow> None | t # ts \<Rightarrow> Some t))"

subsection \<open>Storages used in the examples\<close>

text \<open>A fresh storage that accepts every write.\<close>

definition fresh :: storage where
  "fresh = \<lparr>items = (\<lambda>k. None), rejects = (\<lambda>k t. False)\<rparr>"

text \<open>A session that is logged in and carries the empty email.\<close>

definition session_without_email :: storage where
  "session_without_email =
     fresh\<lparr>items := (\<lambda>k. if k = STORAGE_CURRENT
        then Some (Json (Obj [(''email'', Str []), (''isLoggedIn'', Bool True)])) else None)\<rparr>"

text \<open>The session that \<open>register\<close> writes for \<open>a+b@x.co\<close>.\<close>

definition session_plus :: storage where
  "session_plus =
     fresh\<lparr>items := (\<lambda>k. if k = STORAGE_CURRENT
        then Some (Json (Obj [(''email'', Str ''a+b@x.co''), (''name'', Str ''Ann''),
               (''phone'', Str []), (''address'', Str []), (''occupation'', Str []),
               (''isLoggedIn'', Bool True)])) else None)\<rparr>"



text \<open>An empty storage on a medium that refuses the write of the session item.\<close>

definition refuses_session :: storage where
  "refuses_session = \<lparr>items = (\<lambda>k. None), rejects = (\<lambda>k t. k = STORAGE_CURRENT)\<rparr>"

text \<open>A storage whose user directory is the JSON array \<open>[]\<close>.\<close>

definition array_directory :: storage where
  "array_directory =
     fresh\<lparr>items := (\<lambda>k. if k = STORAGE_USERS then Some (Json (Arr [] [])) else None)\<rparr>"

text \<open>No session; only a standalone quiz record.\<close>

definition quiz_only :: storage where
  "quiz_only =
     fresh\<lparr>items := (\<lambda>k. if k = STORAGE_QUIZ then Some (Json (Obj [(''a'', Num ''1'')]))
        else None)\<rparr>"

text \<open>No session; the three app-state keys hold texts that JSON.parse rejects, and the
  medium refuses every write.\<close>

definition corrupt_full :: storage where
  "corrupt_full =
     \<lparr>items = (\<lambda>k. if k = STORAGE_APP_STATE \<or> k = STORAGE_QUIZ \<or> k = STORAGE_TASKS
                   then Some BadText else None),
      rejects = (\<lambda>k t. True)\<rparr>"

text \<open>Two registered accounts, the second one logged in.\<close>

definition two_accounts :: storage where
  "two_accounts =
     fresh\<lparr>items := (\<lambda>k.
        if k = STORAGE_USERS then
          Some (Json (Obj
            [(''ann@x.co'',
              Obj [(''email'', Str ''ann@x.co''), (''password'', Str ''password1''),
                   (''name'', Str ''Ann''), (''phone'', Str []), (''address'', Str []),
                   (''occupation'', Str ''student''),
                   (''registeredAt'', Str ''2026-01-01T00:00:00.000Z'')]),
             (''bob@x.co'',
              Obj [(''email'', Str ''bob@x.co''), (''password'', Str ''password2''),
                   (''name'', Str ''Bob''), (''phone'', Str ''613-555-0199''),
                   (''address'', Str []), (''occupation'', Str []),
                   (''registeredAt'', Str ''2026-01-02T00:00:00.000Z'')])]))
        else if k = STORAGE_CURRENT then
          Some (Json (Obj
            [(''email'', Str ''bob@x.co''), (''name'', Str ''Bob''),
             (''phone'', Str ''613-555-0199''), (''address'', Str []),
             (''occupation'', Str []), (''isLoggedIn'', Bool True)]))
        else None)\<rparr>"

text \<open>An update that asks for the email of the first account, in another casing.\<close>

definition take_ann :: profile_updates where
  "take_ann =
     \<lparr>u_email = Some '' Ann@X.co'', u_name = Some ''Robert'', u_phone = None,
      u_address = None, u_occupation = None, u_password = None\<rparr>"

section \<open>Auxiliary facts\<close>

subsection \<open>Characters and emails\<close>

lemma code_lower_char:
  "code (lower_char c) =
     (if (65 \<le> code c \<and> code c \<le> 90) \<or> (192 \<le> code c \<and> code c \<le> 222 \<and> code c \<noteq> 215)
      then code c + 32 else code c)"
  by (auto simp: lower_char_def code_def)

lemma code_eq_iff: "code c = code d \<longleftrightarrow> c = d"
  by (simp add: code_def)

lemma char_code:
  "c = CHR ''@'' \<longleftrightarrow> code c = 64" "c = CHR ''.'' \<longleftrightarrow> code c = 46"
  by (simp_all add: code_eq_iff[symmetric] code_def)

lemma lower_char_keeps:
  "is_space (lower_char c) = is_space c"
  "lower_char c = CHR ''@'' \<longleftrightarrow> c = CHR ''@''"
  "lower_char c = CHR ''.'' \<longleftrightarrow> c = CHR ''.''"
  by (auto simp: is_space_def char_code code_lower_char)

lemma is_addr_char_lower: "is_addr_char (lower_char c) = is_addr_char c"
  by (simp add: is_addr_char_def lower_char_keeps)

lemma trim_no_space:
  assumes "\<forall>c\<in>set e. \<not> is_space c"
  shows "trim e = e"
proof (cases e)
  case Nil
  then show ?thesis by (simp add: trim_def)
next
  case (Cons c cs)
  with assms have 1: "dropWhile is_space e = e" by simp
  from assms Cons have "\<not> is_space (hd (rev e))"
    by (metis hd_rev last_in_set list.distinct(1))
  then have 2: "dropWhile is_space (rev e) = rev e"
    by (simp add: dropWhile_eq_self_iff)
  show ?thesis by (simp add: trim_def 1 2)
qed

lemma lower_addr:
  "list_all is_addr_char (map lower_char xs) = list_all is_addr_char xs"
  by (induction xs) (simp_all add: is_addr_char_lower)

lemma lower_addr_tl:
  "list_all is_addr_char (tl (map lower_char xs)) = list_all is_addr_char (tl xs)"
  by (cases xs) (simp_all add: lower_addr)

lemma lower_dot:
  "list_ex (\<lambda>c. c = CHR ''.'') (map lower_char xs) = list_ex (\<lambda>c. c = CHR ''.'') xs"
  by (induction xs) (simp_all add: lower_char_keeps)

lemma lower_dot_inner:
  "list_ex (\<lambda>c. c = CHR ''.'') (butlast (tl (tl (map lower_char xs)))) =
     list_ex (\<lambda>c. c = CHR ''.'') (butlast (tl (tl xs)))"
proof -
  have "butlast (tl (tl (map lower_char xs))) = map lower_char (butlast (tl (tl xs)))"
    by (simp add: map_butlast map_tl)
  then show ?thesis by (simp only: lower_dot)
qed

text \<open>The test of \<open>isValidEmail\<close> is the regular expression
  \<open>^[^\s@]+@[^\s@]+\.[^\s@]+$\<close>: the string splits into three non-empty runs of characters
  other than white space and \<open>@\<close>, with an \<open>@\<close> after the first and a dot after the
  second.\<close>

lemma isValidEmail_iff:
  "isValidEmail e \<longleftrightarrow>
     (\<exists>a b c. e = a @ ''@'' @ b @ ''.'' @ c \<and> a \<noteq> [] \<and> b \<noteq> [] \<and> c \<noteq> [] \<and>
        list_all is_addr_char a \<and> list_all is_addr_char b \<and> list_all is_addr_char c)"
proof
  assume v: "isValidEmail e"
  let ?a = "takeWhile (\<lambda>c. c \<noteq> CHR ''@'') e"
  let ?r = "dropWhile (\<lambda>c. c \<noteq> CHR ''@'') e"
  let ?d = "tl ?r"
  from v have a: "?a \<noteq> []" "list_all is_addr_char ?a" and r: "?r \<noteq> []"
    and d: "list_all is_addr_char ?d"
    and dot: "list_ex (\<lambda>c. c = CHR ''.'') (butlast (tl ?d))"
    by (simp_all add: isValidEmail_def Let_def)
  from r have "hd ?r = CHR ''@''" using hd_dropWhile[of "\<lambda>c. c \<noteq> CHR ''@''" e] by auto
  with r have "?r = CHR ''@'' # ?d" by (cases ?r) auto
  then have e: "e = ?a @ CHR ''@'' # ?d" by (metis takeWhile_dropWhile_id)
  from dot obtain u w where uw: "butlast (tl ?d) = u @ CHR ''.'' # w"
    by (auto simp: list_ex_iff dest: split_list)
  then have ne: "tl ?d \<noteq> []" by auto
  then have td: "tl ?d = (u @ CHR ''.'' # w) @ [last (tl ?d)]"
    using uw append_butlast_last_id by metis
  from ne have "?d \<noteq> []" by auto
  then have "?d = hd ?d # tl ?d" by simp
  with td have dd: "?d = (hd ?d # u) @ ''.'' @ (w @ [last (tl ?d)])" by simp
  from d have "list_all is_addr_char ((hd ?d # u) @ ''.'' @ (w @ [last (tl ?d)]))"
    using dd by metis
  then have "list_all is_addr_char (hd ?d # u)" "list_all is_addr_char (w @ [last (tl ?d)])"
    by simp_all
  moreover from e dd have "e = ?a @ ''@'' @ (hd ?d # u) @ ''.'' @ (w @ [last (tl ?d)])"
    by (metis append_Cons append_Nil)
  ultimately show "\<exists>a b c. e = a @ ''@'' @ b @ ''.'' @ c \<and> a \<noteq> [] \<and> b \<noteq> [] \<and> c \<noteq> [] \<and>
        list_all is_addr_char a \<and> list_all is_addr_char b \<and> list_all is_addr_char c"
    using a by blast
next
  assume "\<exists>a b c. e = a @ ''@'' @ b @ ''.'' @ c \<and> a \<noteq> [] \<and> b \<noteq> [] \<and> c \<noteq> [] \<and>
        list_all is_addr_char a \<and> list_all is_addr_char b \<and> list_all is_addr_char c"
  then obtain a b c where e: "e = a @ ''@'' @ b @ ''.'' @ c"
    and ne: "a \<noteq> []" "b \<noteq> []" "c \<noteq> []"
    and ok: "list_all is_addr_char a" "list_all is_addr_char b" "list_all is_addr_char c"
    by blast
  from ok(1) have na: "\<And>x. x \<in> set a \<Longrightarrow> x \<noteq> CHR ''@''"
    by (auto simp: list_all_iff is_addr_char_def)
  have tw: "takeWhile (\<lambda>c. c \<noteq> CHR ''@'') e = a"
    unfolding e using na by (simp add: takeWhile_append2)
  have dw: "dropWhile (\<lambda>c. c \<noteq> CHR ''@'') e = CHR ''@'' # b @ CHR ''.'' # c"
    unfolding e using na by (simp add: dropWhile_append2)
  have dotc: "is_addr_char (CHR ''.'')"
    by (simp add: is_addr_char_def is_space_def code_def)
  have inner: "butlast (tl b @ CHR ''.'' # c) = tl b @ CHR ''.'' # butlast c"
    using ne(3) by (simp add: butlast_append)
  show "isValidEmail e"
    unfolding isValidEmail_def Let_def tw dw
    using ne ok dotc by (simp add: inner)
qed

text \<open>An email that passes the test has no white space, and lower case keeps it valid: the
  key under which \<open>register\<close> stores a record is a valid email.\<close>

lemma isValidEmail_toLowerCase: "isValidEmail (toLowerCase e) = isValidEmail e"
proof -
  have f: "(\<lambda>c. lower_char c \<noteq> CHR ''@'') = (\<lambda>c. c \<noteq> CHR ''@'')"
    by (simp add: lower_char_keeps)
  have a: "takeWhile (\<lambda>c. c \<noteq> CHR ''@'') (map lower_char e) =
      map lower_char (takeWhile (\<lambda>c. c \<noteq> CHR ''@'') e)"
    by (simp add: takeWhile_map comp_def f)
  have r: "dropWhile (\<lambda>c. c \<noteq> CHR ''@'') (map lower_char e) =
      map lower_char (dropWhile (\<lambda>c. c \<noteq> CHR ''@'') e)"
    by (simp add: dropWhile_map comp_def f)
  show ?thesis
    unfolding isValidEmail_def toLowerCase_def Let_def a r
    by (simp only: lower_addr lower_addr_tl lower_dot_inner map_is_Nil_conv)
qed

lemma isValidEmail_no_space:
  assumes "isValidEmail e"
  shows "\<forall>c\<in>set e. \<not> is_space c"
proof -
  let ?a = "takeWhile (\<lambda>c. c \<noteq> CHR ''@'') e"
  let ?r = "dropWhile (\<lambda>c. c \<noteq> CHR ''@'') e"
  from assms have a: "list_all is_addr_char ?a" and r: "?r \<noteq> []"
    and d: "list_all is_addr_char (tl ?r)"
    by (simp_all add: isValidEmail_def Let_def)
  from r have "hd ?r = CHR ''@''" using hd_dropWhile[of "\<lambda>c. c \<noteq> CHR ''@''" e] by auto
  with r have "?r = CHR ''@'' # tl ?r" by (cases ?r) auto
  then have "e = ?a @ CHR ''@'' # tl ?r"
    by (metis takeWhile_dropWhile_id)
  with a d obtain x y where e: "e = x @ CHR ''@'' # y"
    and x: "list_all is_addr_char x" and y: "list_all is_addr_char y"
    by blast
  have "\<not> is_space (CHR ''@'')" by (simp add: is_space_def code_def)
  with x y show ?thesis
    unfolding e by (auto simp: list_all_iff is_addr_char_def)
qed

lemma isValidEmail_key:
  assumes "isValidEmail e"
  shows "trim (toLowerCase e) = toLowerCase e" and "isValidEmail (trim (toLowerCase e))"
proof -
  from assms have v: "isValidEmail (toLowerCase e)" by (simp add: isValidEmail_toLowerCase)
  from isValidEmail_no_space[OF v] show "trim (toLowerCase e) = toLowerCase e"
    by (rule trim_no_space)
  with v show "isValidEmail (trim (toLowerCase e))" by simp
qed

lemma register_key_valid:
  assumes "register s now email password name phone address occupation = Inr (Success, s')"
  shows "isValidEmail (trim (toLowerCase email))"
proof -
  have "isValidEmail email"
  proof (rule ccontr)
    assume "\<not> isValidEmail email"
    then have "\<And>x. register s now email password name phone address occupation \<noteq> Inr (Success, x)"
      by (simp add: register_def Let_def split: sum.splits)
    with assms show False by blast
  qed
  then show ?thesis by (rule isValidEmail_key(2))
qed


lemma isValidPhone_claim:
  "phone = None \<or> (\<exists>p. phone = Some p \<and>
      (p = [] \<or> (10 \<le> length (filter is_digit p) \<and> length (filter is_digit p) \<le> 15)))
   \<Longrightarrow> isValidPhone phone"
  by (auto simp: isValidPhone_def)

subsection \<open>Objects, keys and frames\<close>

lemma lookup_simps [simp]:
  "lookup [] k = Undefined"
  "lookup ((k', w) # ps) k = (if k = k' then w else lookup ps k)"
  by (simp_all add: lookup_def)

lemma lookup_update_same [simp]: "lookup (AList.update k w ps) k = w"
  by (simp add: lookup_def update_conv')

text \<open>A record assigned under a key is found under that key in what JSON.stringify prints
  of the directory.\<close>

lemma lookup_json_update:
  "w \<noteq> Undefined \<Longrightarrow>
     lookup (map (\<lambda>p. (fst p, json_of (snd p)))
               (filter (\<lambda>p. snd p \<noteq> Undefined) (AList.update k w ps))) k = json_of w"
  by (induction ps) auto

text \<open>The five base names differ in their thirteenth character, so no suffix makes two of
  the keys equal.\<close>

lemma keys_distinct [simp]:
  "STORAGE_QUIZ @ x \<noteq> STORAGE_TASKS @ y" "STORAGE_TASKS @ y \<noteq> STORAGE_QUIZ @ x"
  "STORAGE_QUIZ @ x \<noteq> STORAGE_APP_STATE @ y" "STORAGE_APP_STATE @ y \<noteq> STORAGE_QUIZ @ x"
  "STORAGE_TASKS @ x \<noteq> STORAGE_APP_STATE @ y" "STORAGE_APP_STATE @ y \<noteq> STORAGE_TASKS @ x"
  "STORAGE_QUIZ @ x \<noteq> STORAGE_CURRENT" "STORAGE_CURRENT \<noteq> STORAGE_QUIZ @ x"
  "STORAGE_TASKS @ x \<noteq> STORAGE_CURRENT" "STORAGE_CURRENT \<noteq> STORAGE_TASKS @ x"
  "STORAGE_APP_STATE @ x \<noteq> STORAGE_CURRENT" "STORAGE_CURRENT \<noteq> STORAGE_APP_STATE @ x"
  "STORAGE_QUIZ @ x \<noteq> STORAGE_USERS" "STORAGE_USERS \<noteq> STORAGE_QUIZ @ x"
  "STORAGE_TASKS @ x \<noteq> STORAGE_USERS" "STORAGE_USERS \<noteq> STORAGE_TASKS @ x"
  "STORAGE_APP_STATE @ x \<noteq> STORAGE_USERS" "STORAGE_USERS \<noteq> STORAGE_APP_STATE @ x"
  "STORAGE_USERS \<noteq> STORAGE_CURRENT" "STORAGE_CURRENT \<noteq> STORAGE_USERS"
  "STORAGE_QUIZ \<noteq> STORAGE_TASKS" "STORAGE_TASKS \<noteq> STORAGE_QUIZ"
  "STORAGE_QUIZ \<noteq> STORAGE_APP_STATE" "STORAGE_APP_STATE \<noteq> STORAGE_QUIZ"
  "STORAGE_TASKS \<noteq> STORAGE_APP_STATE" "STORAGE_APP_STATE \<noteq> STORAGE_TASKS"
  by (simp_all add: STORAGE_QUIZ_def STORAGE_TASKS_def STORAGE_APP_STATE_def
        STORAGE_CURRENT_def STORAGE_USERS_def)

text \<open>The suffix and the current user are read from the session item alone.\<close>

lemma getStorageSuffix_cong:
  "items s' STORAGE_CURRENT = items s STORAGE_CURRENT \<Longrightarrow>
     getStorageSuffix s' = getStorageSuffix s"
  by (simp add: getStorageSuffix_def getStorageSuffix_try_def getItem_def)

lemma getCurrentUser_cong:
  "items s' STORAGE_CURRENT = items s STORAGE_CURRENT \<Longrightarrow>
     getCurrentUser s' = getCurrentUser s"
  by (simp add: getCurrentUser_def getCurrentUser_try_def getItem_def)

text \<open>Only null and undefined, which are falsy, make a property read throw.\<close>

lemma get_prop_Inl: "get_prop v k = Inl x \<Longrightarrow> \<not> truthy v"
  by (cases v) auto

lemma get_prop_truthy: "truthy v \<Longrightarrow> \<exists>w. get_prop v k = Inr w"
  by (cases v) auto

lemma get_prop_own:
  "k \<noteq> ''length'' \<Longrightarrow>
     get_prop v k =
       (if v = Null \<or> v = Undefined then Inl TypeError else Inr (lookup (own_props v) k))"
  by (cases v) (simp_all add: lookup_def)

lemma get_prop_absent:
  "map_of (own_props v) k = None \<Longrightarrow> k \<noteq> ''length'' \<Longrightarrow>
     get_prop v k = Inr Undefined \<or> get_prop v k = Inl TypeError"
  by (simp add: get_prop_own lookup_def)

text \<open>A spread defines the spread value's properties over the literal's: the last
  definition of a name wins, and the literal's names stay.\<close>

lemma map_of_foldl_update:
  "map_of (foldl (\<lambda>acc p. AList.update (fst p) (snd p) acc) base ps) =
     map_of base ++ map_of (rev ps)"
  by (induction ps arbitrary: base)
     (auto simp: update_conv' map_add_def fun_eq_iff split: option.splits)

lemma lookup_spread:
  "lookup (spread base v) k =
     (case map_of (rev (own_props v)) k of None \<Rightarrow> lookup base k | Some w \<Rightarrow> w)"
  by (simp add: lookup_def spread_def map_of_foldl_update map_add_def split: option.splits)

lemma map_of_rev_None: "map_of (rev ps) k = None \<longleftrightarrow> map_of ps k = None"
  by (simp add: map_of_eq_None_iff)

lemma lookup_spread_absent:
  "map_of (own_props v) k = None \<Longrightarrow> lookup (spread base v) k = lookup base k"
proof -
  assume "map_of (own_props v) k = None"
  then have "map_of (rev (own_props v)) k = None" by (simp add: map_of_rev_None)
  then show ?thesis by (simp add: lookup_spread)
qed

lemma map_of_spread_base:
  "map_of base k \<noteq> None \<Longrightarrow> map_of (spread base v) k \<noteq> None"
  by (auto simp: spread_def map_of_foldl_update map_add_def split: option.splits)

text \<open>The state that \<open>getAppState\<close> returns is an object with the three fields.\<close>

lemma getAppState_fields:
  "\<exists>ps. getAppState s = Obj ps \<and> map_of ps ''isPlanGenerated'' \<noteq> None \<and>
     map_of ps ''exitPlanData'' \<noteq> None \<and> map_of ps ''completedTasks'' \<noteq> None"
proof (cases "getAppState_try s")
  case (Inl e)
  then show ?thesis by (simp add: getAppState_def default_state_def)
next
  case (Inr v)
  then obtain base state where v: "v = Obj (spread base state)"
    and b: "map_of base ''isPlanGenerated'' \<noteq> None" "map_of base ''exitPlanData'' \<noteq> None"
       "map_of base ''completedTasks'' \<noteq> None"
    unfolding getAppState_try_def Let_def by (simp split: sum.splits) fastforce
  show ?thesis
    using map_of_spread_base[OF b(1), of state] map_of_spread_base[OF b(2), of state]
      map_of_spread_base[OF b(3), of state]
    by (simp add: getAppState_def Inr v)
qed

text \<open>The flag and the plan of the state that the body of \<open>getAppState\<close> returns: the
  combined record's own value where it has one, the value computed from the standalone
  quiz record otherwise.\<close>

lemma own_value_None: "own_value v k = None \<Longrightarrow> map_of (own_props v) k = None"
  by (simp add: own_value_def map_of_rev_None)

lemma getAppState_try_fields:
  assumes "getAppState_try s = Inr v"
  shows "\<exists>state.
     parse_or (getItem s (STORAGE_APP_STATE @ getStorageSuffix s)) (Obj []) = Inr state \<and>
     get_prop v ''isPlanGenerated'' =
       Inr (case own_value state ''isPlanGenerated'' of
              Some f \<Rightarrow> f | None \<Rightarrow> Bool (truthy (getExitPlanData s))) \<and>
     get_prop v ''exitPlanData'' =
       Inr (case own_value state ''exitPlanData'' of
              Some d \<Rightarrow> d
            | None \<Rightarrow> if truthy (getExitPlanData s) then getExitPlanData s else Null)"
proof -
  from assms obtain state g d c where
    st: "parse_or (getItem s (STORAGE_APP_STATE @ getStorageSuffix s)) (Obj []) = Inr state"
    and g: "get_prop state ''isPlanGenerated'' = Inr g"
    and d: "get_prop state ''exitPlanData'' = Inr d"
    and v: "v = Obj (spread
              [(''isPlanGenerated'', Bool (truthy g \<or> truthy (getExitPlanData s))),
               (''exitPlanData'', js_or (js_or d (getExitPlanData s)) Null),
               (''completedTasks'', js_or (js_or c (getTasks s)) (Obj []))] state)"
    unfolding getAppState_try_def Let_def by (simp split: sum.splits) blast
  have g0: "own_value state ''isPlanGenerated'' = None \<Longrightarrow> g = Undefined"
    using get_prop_absent[OF own_value_None, of state "''isPlanGenerated''"] g by auto
  have d0: "own_value state ''exitPlanData'' = None \<Longrightarrow> d = Undefined"
    using get_prop_absent[OF own_value_None, of state "''exitPlanData''"] d by auto
  have 1: "get_prop v ''isPlanGenerated'' =
       Inr (case own_value state ''isPlanGenerated'' of
              Some f \<Rightarrow> f | None \<Rightarrow> Bool (truthy (getExitPlanData s)))"
    using g0 by (simp add: v lookup_spread own_value_def[symmetric] split: option.splits)
  have 2: "get_prop v ''exitPlanData'' =
       Inr (case own_value state ''exitPlanData'' of
              Some d \<Rightarrow> d
            | None \<Rightarrow> if truthy (getExitPlanData s) then getExitPlanData s else Null)"
    using d0
    by (simp add: v lookup_spread own_value_def[symmetric] js_or_def split: option.splits)
  from st 1 2 show ?thesis by blast
qed

lemma getAppState_try_Inr:
  "parse_or (getItem s (STORAGE_APP_STATE @ getStorageSuffix s)) (Obj []) = Inr state \<Longrightarrow>
     state \<noteq> Null \<Longrightarrow> state \<noteq> Undefined \<Longrightarrow> \<exists>v. getAppState_try s = Inr v"
  by (cases state) (simp_all add: getAppState_try_def Let_def)

lemma truthy_not_nullish: "truthy v \<Longrightarrow> not_nullish v"
  by (cases v) auto

text \<open>Where the invariant of the state fails: the combined record stores a flag other
  than \<open>true\<close> while a plan is present, or stores a plan without a flag and without a
  standalone quiz record.\<close>

lemma getAppState_invariant_fails:
  assumes st:
      "parse_or (getItem s (STORAGE_APP_STATE @ getStorageSuffix s)) (Obj []) = Inr state"
    and bad: "\<not> (case own_value state ''isPlanGenerated'' of
            Some f \<Rightarrow>
              f = Bool True \<or>
              (case own_value state ''exitPlanData'' of
                 Some d \<Rightarrow> \<not> not_nullish d
               | None \<Rightarrow> \<not> truthy (getExitPlanData s))
          | None \<Rightarrow>
              (case own_value state ''exitPlanData'' of
                 Some d \<Rightarrow> \<not> not_nullish d \<or> truthy (getExitPlanData s)
               | None \<Rightarrow> True))"
  shows "\<exists>d. get_prop (getAppState s) ''exitPlanData'' = Inr d \<and> not_nullish d \<and>
     get_prop (getAppState s) ''isPlanGenerated'' \<noteq> Inr (Bool True)"
proof -
  from bad have "own_props state \<noteq> []"
    by (auto simp: own_value_def split: option.splits)
  then have "state \<noteq> Null" "state \<noteq> Undefined" by auto
  from getAppState_try_Inr[OF st this] obtain v where v: "getAppState_try s = Inr v"
    by blast
  from getAppState_try_fields[OF v] st obtain
    1: "get_prop v ''isPlanGenerated'' =
       Inr (case own_value state ''isPlanGenerated'' of
              Some f \<Rightarrow> f | None \<Rightarrow> Bool (truthy (getExitPlanData s)))"
    and 2: "get_prop v ''exitPlanData'' =
       Inr (case own_value state ''exitPlanData'' of
              Some d \<Rightarrow> d
            | None \<Rightarrow> if truthy (getExitPlanData s) then getExitPlanData s else Null)"
    by auto
  have g: "getAppState s = v" by (simp add: getAppState_def v)
  show ?thesis
    using bad truthy_not_nullish[of "getExitPlanData s"]
    unfolding g 1 2 by (auto split: option.splits)
qed

text \<open>\<open>saveAppState\<close> writes at most the three keys of the current suffix, the quiz key only
  for an exit plan that is not null, and removes nothing.\<close>

lemma saveAppState_frame:
  "rejects (fst (saveAppState s updates)) = rejects s \<and>
   (items (fst (saveAppState s updates)) k = items s k \<or>
    items (fst (saveAppState s updates)) k \<noteq> None \<and>
    (k = STORAGE_QUIZ @ getStorageSuffix s \<and>
       not_nullish (lookup (merged s updates) ''exitPlanData'')
     \<or> k = STORAGE_TASKS @ getStorageSuffix s \<or> k = STORAGE_APP_STATE @ getStorageSuffix s))"
  unfolding saveAppState_def saveAppState_try_def Let_def setItem_def
  by (simp split: if_splits)

section \<open>Properties\<close>

subsection \<open>Writing an exit plan and reading the state back\<close>

text \<open>
  C1. The claim: for every quiz object \<open>X\<close>, \<open>saveAppState({exitPlanData: X})\<close> followed by
  \<open>getAppState()\<close> returns a state with \<open>isPlanGenerated\<close> true and \<open>exitPlanData\<close> equal to
  \<open>X\<close>. On a fresh storage the write succeeds and the state read back holds the plan, but
  its \<open>isPlanGenerated\<close> is false: \<open>saveAppState\<close> stores the flag \<open>false\<close> that
  \<open>getAppState\<close> computed before the plan existed, and on the read the stored flag, spread
  last into the result, replaces the value computed from the plan.
\<close>

theorem saveAppState_getAppState_flag:
  "snd (saveAppState fresh (Obj [(''exitPlanData'', Obj [(''a'', Num ''1'')])])) = True \<and>
   getAppState (fst (saveAppState fresh (Obj [(''exitPlanData'', Obj [(''a'', Num ''1'')])]))) =
     Obj [(''isPlanGenerated'', Bool False),
          (''exitPlanData'', Obj [(''a'', Num ''1'')]),
          (''completedTasks'', Obj [])]"
  by code_simp

subsection \<open>Local tenant tip\<close>

text \<open>
  C9. \<open>getLocalTenantTip('student', 'Ottawa, ON')\<close> is the tip for students in Ottawa; and
  when the occupation, in lower case, is not \<open>student\<close> and the city, in lower case, contains
  none of \<open>ottawa\<close>, \<open>toronto\<close>, \<open>ontario\<close>, \<open>montreal\<close>, \<open>quebec\<close>, the result is null.
\<close>

theorem getLocalTenantTip_cases:
  "getLocalTenantTip (Some ''student'') (Some ''Ottawa, ON'') = Some StudentsOttawa \<and>
   (toLowerCase (case occupation of None \<Rightarrow> [] | Some oc \<Rightarrow> oc) \<noteq> ''student'' \<and>
    \<not> str_includes (toLowerCase (case cityProvince of None \<Rightarrow> [] | Some c \<Rightarrow> c)) ''ottawa'' \<and>
    \<not> str_includes (toLowerCase (case cityProvince of None \<Rightarrow> [] | Some c \<Rightarrow> c)) ''toronto'' \<and>
    \<not> str_includes (toLowerCase (case cityProvince of None \<Rightarrow> [] | Some c \<Rightarrow> c)) ''ontario'' \<and>
    \<not> str_includes (toLowerCase (case cityProvince of None \<Rightarrow> [] | Some c \<Rightarrow> c)) ''montreal'' \<and>
    \<not> str_includes (toLowerCase (case cityProvince of None \<Rightarrow> [] | Some c \<Rightarrow> c)) ''quebec''
    \<longrightarrow> getLocalTenantTip occupation cityProvince = None)"
proof
  show "getLocalTenantTip (Some ''student'') (Some ''Ottawa, ON'') = Some StudentsOttawa"
    by code_simp
  show "toLowerCase (case occupation of None \<Rightarrow> [] | Some oc \<Rightarrow> oc) \<noteq> ''student'' \<and>
    \<not> str_includes (toLowerCase (case cityProvince of None \<Rightarrow> [] | Some c \<Rightarrow> c)) ''ottawa'' \<and>
    \<not> str_includes (toLowerCase (case cityProvince of None \<Rightarrow> [] | Some c \<Rightarrow> c)) ''toronto'' \<and>
    \<not> str_includes (toLowerCase (case cityProvince of None \<Rightarrow> [] | Some c \<Rightarrow> c)) ''ontario'' \<and>
    \<not> str_includes (toLowerCase (case cityProvince of None \<Rightarrow> [] | Some c \<Rightarrow> c)) ''montreal'' \<and>
    \<not> str_includes (toLowerCase (case cityProvince of None \<Rightarrow> [] | Some c \<Rightarrow> c)) ''quebec''
    \<longrightarrow> getLocalTenantTip occupation cityProvince = None"
    unfolding getLocalTenantTip_def Let_def by simp
qed

theorem getLocalTenantTip_cases_witness:
  "toLowerCase (case Some ''Nurse'' of None \<Rightarrow> [] | Some oc \<Rightarrow> oc) \<noteq> ''student'' \<and>
   \<not> str_includes (toLowerCase (case Some ''Calgary, AB'' of None \<Rightarrow> [] | Some c \<Rightarrow> c)) ''ottawa'' \<and>
   \<not> str_includes (toLowerCase (case Some ''Calgary, AB'' of None \<Rightarrow> [] | Some c \<Rightarrow> c)) ''toronto'' \<and>
   \<not> str_includes (toLowerCase (case Some ''Calgary, AB'' of None \<Rightarrow> [] | Some c \<Rightarrow> c)) ''ontario'' \<and>
   \<not> str_includes (toLowerCase (case Some ''Calgary, AB'' of None \<Rightarrow> [] | Some c \<Rightarrow> c)) ''montreal'' \<and>
   \<not> str_includes (toLowerCase (case Some ''Calgary, AB'' of None \<Rightarrow> [] | Some c \<Rightarrow> c)) ''quebec'' \<and>
   getLocalTenantTip (Some ''Nurse'') (Some ''Calgary, AB'') = None"
proof -
  have h: "toLowerCase (case Some ''Nurse'' of None \<Rightarrow> [] | Some oc \<Rightarrow> oc) \<noteq> ''student'' \<and>
   \<not> str_includes (toLowerCase (case Some ''Calgary, AB'' of None \<Rightarrow> [] | Some c \<Rightarrow> c)) ''ottawa'' \<and>
   \<not> str_includes (toLowerCase (case Some ''Calgary, AB'' of None \<Rightarrow> [] | Some c \<Rightarrow> c)) ''toronto'' \<and>
   \<not> str_includes (toLowerCase (case Some ''Calgary, AB'' of None \<Rightarrow> [] | Some c \<Rightarrow> c)) ''ontario'' \<and>
   \<not> str_includes (toLowerCase (case Some ''Calgary, AB'' of None \<Rightarrow> [] | Some c \<Rightarrow> c)) ''montreal'' \<and>
   \<not> str_includes (toLowerCase (case Some ''Calgary, AB'' of None \<Rightarrow> [] | Some c \<Rightarrow> c)) ''quebec''"
    by code_simp
  from getLocalTenantTip_cases [of "Some ''Nurse''" "Some ''Calgary, AB''"] h
  show ?thesis by blast
qed

subsection \<open>Sessions and the storage suffix\<close>

text \<open>
  C3. The claim: what is written while one email is logged in is not visible while another
  email is logged in. The suffix replaces every character outside \<open>[a-zA-Z0-9@._-]\<close> by
  \<open>_\<close>, so \<open>a+b@x.co\<close> and \<open>a_b@x.co\<close>, which both pass \<open>isValidEmail\<close>, share the suffix
  \<open>_a_b@x.co\<close>: the first account registers and saves an exit plan, the second account
  registers (which logs it in), and \<open>getAppState\<close> returns the first account's plan.
\<close>

theorem shared_suffix_leak:
  "(case register fresh ''2026-01-01T00:00:00.000Z'' ''a+b@x.co'' ''password1''
           None None None None of
      Inr (Success, s1) \<Rightarrow>
        (case saveAppState s1 (Obj [(''exitPlanData'', Obj [(''a'', Num ''1'')])]) of
           (s2, ok) \<Rightarrow>
             (case register s2 ''2026-01-02T00:00:00.000Z'' ''a_b@x.co'' ''password2''
                     None None None None of
                Inr (Success, s3) \<Rightarrow>
                  ok \<and>
                  get_prop (getCurrentUser s2) ''email'' = Inr (Str ''a+b@x.co'') \<and>
                  get_prop (getCurrentUser s3) ''email'' = Inr (Str ''a_b@x.co'') \<and>
                  get_prop (getAppState s3) ''exitPlanData'' = Inr (Obj [(''a'', Num ''1'')])
              | _ \<Rightarrow> False))
    | _ \<Rightarrow> False)"
  by code_simp

text \<open>
  C8. The claim: \<open>getStorageSuffix\<close> returns the empty string when there is no current
  logged-in session, and otherwise \<open>_\<close> followed by the sanitised email. The condition of
  the code is \<open>user && user.isLoggedIn && user.email\<close>: a logged-in session whose email is
  empty gets the empty suffix, not \<open>_\<close>.
\<close>

theorem getStorageSuffix_empty_email:
  "getCurrentUser session_without_email = Obj [(''email'', Str []), (''isLoggedIn'', Bool True)] \<and>
   get_prop (getCurrentUser session_without_email) ''email'' = Inr (Str []) \<and>
   String_of (Str []) = Inr [] \<and>
   getStorageSuffix session_without_email = [] \<and>
   getStorageSuffix session_without_email \<noteq> CHR ''_'' # sanitize []"
  by code_simp

text \<open>
  C8, amended. \<open>getStorageSuffix\<close> returns the empty string when there is no current
  logged-in session (\<open>getCurrentUser\<close> returns null), when the session's email is falsy
  (empty or missing), and when \<open>String(email)\<close> throws; otherwise it returns \<open>_\<close> followed
  by \<open>String(email)\<close> with every character outside \<open>[A-Za-z0-9@._-]\<close> replaced by \<open>_\<close>.
  In particular, for a session whose email is a non-empty string, it returns \<open>_\<close> followed
  by that string with the characters replaced.
\<close>

theorem getStorageSuffix_cases:
  "(getCurrentUser s = Null \<longrightarrow> getStorageSuffix s = []) \<and>
   (getCurrentUser s \<noteq> Null \<longrightarrow>
      (\<exists>em. get_prop (getCurrentUser s) ''email'' = Inr em \<and>
         getStorageSuffix s =
           (if truthy em
            then (case String_of em of
                Inl x \<Rightarrow> []
              | Inr printed \<Rightarrow>
                  CHR ''_'' # map (\<lambda>c. if is_key_char c then c else CHR ''_'') printed)
            else []))) \<and>
   (\<forall>e. get_prop (getCurrentUser s) ''email'' = Inr (Str e) \<and> e \<noteq> [] \<longrightarrow>
      getStorageSuffix s = CHR ''_'' # map (\<lambda>c. if is_key_char c then c else CHR ''_'') e)"
proof -
  have suffix: "getStorageSuffix s =
      (case get_prop (getCurrentUser s) ''email'' of
         Inl x \<Rightarrow> []
       | Inr em \<Rightarrow>
           (if truthy em
            then (case String_of em of
                Inl x \<Rightarrow> []
              | Inr printed \<Rightarrow>
                  CHR ''_'' # map (\<lambda>c. if is_key_char c then c else CHR ''_'') printed)
            else []))"
  proof (cases "parse_or (getItem s STORAGE_CURRENT) Null")
    case (Inl e)
    then show ?thesis
      by (simp add: getCurrentUser_def getCurrentUser_try_def getStorageSuffix_def
            getStorageSuffix_try_def)
  next
    case (Inr user)
    show ?thesis
    proof (cases "truthy user")
      case False
      with Inr show ?thesis
        by (simp add: getCurrentUser_def getCurrentUser_try_def getStorageSuffix_def
              getStorageSuffix_try_def)
    next
      case True
      then obtain l em where l: "get_prop user ''isLoggedIn'' = Inr l"
        and em: "get_prop user ''email'' = Inr em"
        using get_prop_truthy by blast
      show ?thesis
      proof (cases "truthy l")
        case False
        with Inr True l show ?thesis
          by (simp add: getCurrentUser_def getCurrentUser_try_def getStorageSuffix_def
                getStorageSuffix_try_def)
      next
        case lt: True
        have cur: "getCurrentUser s = user"
          using Inr True l lt by (simp add: getCurrentUser_def getCurrentUser_try_def)
        show ?thesis
          using Inr True l lt em
          by (cases "String_of em")
             (simp_all add: cur getStorageSuffix_def getStorageSuffix_try_def sanitize_def)
      qed
    qed
  qed
  have user: "getCurrentUser s \<noteq> Null \<Longrightarrow> \<exists>em. get_prop (getCurrentUser s) ''email'' = Inr em"
    unfolding getCurrentUser_def getCurrentUser_try_def
    by (auto split: sum.splits if_splits intro: get_prop_truthy)
  have none: "getCurrentUser s = Null \<Longrightarrow> getStorageSuffix s = []"
    by (simp add: suffix)
  have some: "\<exists>em. get_prop (getCurrentUser s) ''email'' = Inr em \<and>
         getStorageSuffix s =
           (if truthy em
            then (case String_of em of
                Inl x \<Rightarrow> []
              | Inr printed \<Rightarrow>
                  CHR ''_'' # map (\<lambda>c. if is_key_char c then c else CHR ''_'') printed)
            else [])"
    if "getCurrentUser s \<noteq> Null"
  proof -
    from user[OF that] obtain em where em: "get_prop (getCurrentUser s) ''email'' = Inr em"
      by blast
    show ?thesis
      by (rule exI[of _ em]) (simp add: suffix em)
  qed
  have text_email: "getStorageSuffix s =
      CHR ''_'' # map (\<lambda>c. if is_key_char c then c else CHR ''_'') e"
    if "get_prop (getCurrentUser s) ''email'' = Inr (Str e)" and "e \<noteq> []" for e
    using that by (simp add: suffix)
  show ?thesis
    using none some text_email by blast
qed

theorem getStorageSuffix_cases_witness:
  "getCurrentUser fresh = Null \<and> getStorageSuffix fresh = [] \<and>
   getCurrentUser session_plus \<noteq> Null \<and>
   get_prop (getCurrentUser session_plus) ''email'' = Inr (Str ''a+b@x.co'') \<and>
   getStorageSuffix session_plus = ''_a_b@x.co''"
proof -
  have n: "getCurrentUser fresh = Null" by code_simp
  have u: "getCurrentUser session_plus \<noteq> Null" by code_simp
  have e: "get_prop (getCurrentUser session_plus) ''email'' = Inr (Str ''a+b@x.co'')"
    by code_simp
  have v: "CHR ''_'' # map (\<lambda>c. if is_key_char c then c else CHR ''_'') ''a+b@x.co'' =
      ''_a_b@x.co''"
    by code_simp
  from getStorageSuffix_cases [of fresh] n have "getStorageSuffix fresh = []" by blast
  moreover from getStorageSuffix_cases [of session_plus] e
  have "getStorageSuffix session_plus =
      CHR ''_'' # map (\<lambda>c. if is_key_char c then c else CHR ''_'') ''a+b@x.co''"
    by blast
  ultimately show ?thesis using n u e v by simp
qed

subsection \<open>The combined app state\<close>




text \<open>
  C10. \<open>saveAppState\<close> removes no item; and when the merged state's \<open>exitPlanData\<close> is null
  (or undefined), the standalone quiz record of the current suffix is left as it is, the
  suffix stays the same, and \<open>getExitPlanData\<close> returns afterwards what it returned before.
\<close>

theorem saveAppState_keeps_quiz:
  "(\<not> not_nullish (lookup (merged s updates) ''exitPlanData'') \<longrightarrow>
      items (fst (saveAppState s updates)) (STORAGE_QUIZ @ getStorageSuffix s) =
        items s (STORAGE_QUIZ @ getStorageSuffix s) \<and>
      getStorageSuffix (fst (saveAppState s updates)) = getStorageSuffix s \<and>
      getExitPlanData (fst (saveAppState s updates)) = getExitPlanData s) \<and>
   (\<forall>k. items s k \<noteq> None \<longrightarrow> items (fst (saveAppState s updates)) k \<noteq> None)"
proof -
  have cur: "items (fst (saveAppState s updates)) STORAGE_CURRENT = items s STORAGE_CURRENT"
    using saveAppState_frame[of s updates STORAGE_CURRENT] by simp
  have sfx: "getStorageSuffix (fst (saveAppState s updates)) = getStorageSuffix s"
    by (rule getStorageSuffix_cong[OF cur])
  have keep: "\<And>k. items s k \<noteq> None \<Longrightarrow> items (fst (saveAppState s updates)) k \<noteq> None"
    using saveAppState_frame[of s updates] by metis
  have quiz: "\<not> not_nullish (lookup (merged s updates) ''exitPlanData'') \<Longrightarrow>
      items (fst (saveAppState s updates)) (STORAGE_QUIZ @ getStorageSuffix s) =
        items s (STORAGE_QUIZ @ getStorageSuffix s)"
    using saveAppState_frame[of s updates "STORAGE_QUIZ @ getStorageSuffix s"] by simp
  show ?thesis
    using sfx keep quiz by (simp add: getExitPlanData_def getItem_def)
qed

theorem saveAppState_keeps_quiz_witness:
  "\<not> not_nullish (lookup (merged quiz_only (Obj [(''exitPlanData'', Null)])) ''exitPlanData'') \<and>
   snd (saveAppState quiz_only (Obj [(''exitPlanData'', Null)])) = True \<and>
   getExitPlanData quiz_only = Obj [(''a'', Num ''1'')] \<and>
   getExitPlanData (fst (saveAppState quiz_only (Obj [(''exitPlanData'', Null)]))) =
     Obj [(''a'', Num ''1'')]"
proof -
  have h: "\<not> not_nullish
      (lookup (merged quiz_only (Obj [(''exitPlanData'', Null)])) ''exitPlanData'')"
    by code_simp
  have ok: "snd (saveAppState quiz_only (Obj [(''exitPlanData'', Null)])) = True"
    by code_simp
  have before: "getExitPlanData quiz_only = Obj [(''a'', Num ''1'')]"
    by code_simp
  from saveAppState_keeps_quiz [of quiz_only "Obj [(''exitPlanData'', Null)]"] h
  have "getExitPlanData (fst (saveAppState quiz_only (Obj [(''exitPlanData'', Null)]))) =
      getExitPlanData quiz_only"
    by blast
  with h ok before show ?thesis by simp
qed

text \<open>
  C7. \<open>getAppState\<close> and \<open>saveAppState\<close> catch every exception of their bodies, so both
  return a value on every storage. A combined record that JSON.parse rejects gives the
  default state; a quiz record that JSON.parse rejects contributes null and a task record
  that JSON.parse rejects contributes \<open>{}\<close>, each exactly as if the item were not stored.
  The state returned is always an object with the three fields. \<open>saveAppState\<close> returns
  false exactly when the medium refuses one of the writes it attempts.
\<close>

theorem read_write_never_fail:
  "(items s (STORAGE_APP_STATE @ getStorageSuffix s) = Some BadText \<longrightarrow>
      getAppState s = default_state) \<and>
   (items s (STORAGE_QUIZ @ getStorageSuffix s) = Some BadText \<longrightarrow>
      getExitPlanData s = Null \<and>
      getAppState s =
        getAppState (s\<lparr>items := (items s)(STORAGE_QUIZ @ getStorageSuffix s := None)\<rparr>)) \<and>
   (items s (STORAGE_TASKS @ getStorageSuffix s) = Some BadText \<longrightarrow>
      getTasks s = Obj [] \<and>
      getAppState s =
        getAppState (s\<lparr>items := (items s)(STORAGE_TASKS @ getStorageSuffix s := None)\<rparr>)) \<and>
   (\<exists>ps. getAppState s = Obj ps \<and> map_of ps ''isPlanGenerated'' \<noteq> None \<and>
      map_of ps ''exitPlanData'' \<noteq> None \<and> map_of ps ''completedTasks'' \<noteq> None) \<and>
   (snd (saveAppState s updates) \<longleftrightarrow>
      \<not> (not_nullish (lookup (merged s updates) ''exitPlanData'') \<and>
         rejects s (STORAGE_QUIZ @ getStorageSuffix s)
           (JSON_stringify (lookup (merged s updates) ''exitPlanData''))) \<and>
      \<not> (not_nullish (lookup (merged s updates) ''completedTasks'') \<and>
         typeof_object (lookup (merged s updates) ''completedTasks'') \<and>
         rejects s (STORAGE_TASKS @ getStorageSuffix s)
           (JSON_stringify (lookup (merged s updates) ''completedTasks''))) \<and>
      \<not> rejects s (STORAGE_APP_STATE @ getStorageSuffix s)
           (JSON_stringify (Obj
              [(''isPlanGenerated'', lookup (merged s updates) ''isPlanGenerated''),
               (''exitPlanData'', lookup (merged s updates) ''exitPlanData''),
               (''completedTasks'', lookup (merged s updates) ''completedTasks'')])))"
proof (intro conjI impI)
  assume "items s (STORAGE_APP_STATE @ getStorageSuffix s) = Some BadText"
  then show "getAppState s = default_state"
    by (simp add: getAppState_def getAppState_try_def getItem_def)
next
  assume q: "items s (STORAGE_QUIZ @ getStorageSuffix s) = Some BadText"
  then show "getExitPlanData s = Null"
    by (simp add: getExitPlanData_def getItem_def)
  let ?s' = "s\<lparr>items := (items s)(STORAGE_QUIZ @ getStorageSuffix s := None)\<rparr>"
  have sfx: "getStorageSuffix ?s' = getStorageSuffix s"
    by (rule getStorageSuffix_cong) simp
  have "getExitPlanData ?s' = getExitPlanData s"
    using q sfx by (simp add: getExitPlanData_def getItem_def)
  moreover have "getTasks ?s' = getTasks s"
    using sfx by (simp add: getTasks_def getItem_def)
  ultimately show "getAppState s = getAppState ?s'"
    using sfx
    by (simp add: getAppState_def getAppState_try_def getItem_def Let_def
          cong: sum.case_cong)
next
  assume q: "items s (STORAGE_TASKS @ getStorageSuffix s) = Some BadText"
  then show "getTasks s = Obj []"
    by (simp add: getTasks_def getItem_def)
  let ?s' = "s\<lparr>items := (items s)(STORAGE_TASKS @ getStorageSuffix s := None)\<rparr>"
  have sfx: "getStorageSuffix ?s' = getStorageSuffix s"
    by (rule getStorageSuffix_cong) simp
  have "getExitPlanData ?s' = getExitPlanData s"
    using sfx by (simp add: getExitPlanData_def getItem_def)
  moreover have "getTasks ?s' = getTasks s"
    using q sfx by (simp add: getTasks_def getItem_def)
  ultimately show "getAppState s = getAppState ?s'"
    using sfx
    by (simp add: getAppState_def getAppState_try_def getItem_def Let_def
          cong: sum.case_cong)
next
  show "\<exists>ps. getAppState s = Obj ps \<and> map_of ps ''isPlanGenerated'' \<noteq> None \<and>
      map_of ps ''exitPlanData'' \<noteq> None \<and> map_of ps ''completedTasks'' \<noteq> None"
    by (rule getAppState_fields)
next
  show "snd (saveAppState s updates) \<longleftrightarrow>
      \<not> (not_nullish (lookup (merged s updates) ''exitPlanData'') \<and>
         rejects s (STORAGE_QUIZ @ getStorageSuffix s)
           (JSON_stringify (lookup (merged s updates) ''exitPlanData''))) \<and>
      \<not> (not_nullish (lookup (merged s updates) ''completedTasks'') \<and>
         typeof_object (lookup (merged s updates) ''completedTasks'') \<and>
         rejects s (STORAGE_TASKS @ getStorageSuffix s)
           (JSON_stringify (lookup (merged s updates) ''completedTasks''))) \<and>
      \<not> rejects s (STORAGE_APP_STATE @ getStorageSuffix s)
           (JSON_stringify (Obj
              [(''isPlanGenerated'', lookup (merged s updates) ''isPlanGenerated''),
               (''exitPlanData'', lookup (merged s updates) ''exitPlanData''),
               (''completedTasks'', lookup (merged s updates) ''completedTasks'')]))"
    unfolding saveAppState_def saveAppState_try_def Let_def setItem_def
    by (auto split: if_splits)
qed

theorem read_write_never_fail_witness:
  "items corrupt_full (STORAGE_APP_STATE @ getStorageSuffix corrupt_full) = Some BadText \<and>
   items corrupt_full (STORAGE_QUIZ @ getStorageSuffix corrupt_full) = Some BadText \<and>
   items corrupt_full (STORAGE_TASKS @ getStorageSuffix corrupt_full) = Some BadText \<and>
   getAppState corrupt_full = default_state \<and>
   getExitPlanData corrupt_full = Null \<and>
   getTasks corrupt_full = Obj [] \<and>
   snd (saveAppState corrupt_full (Obj [(''exitPlanData'', Obj [(''a'', Num ''1'')])])) = False"
proof -
  have a: "items corrupt_full (STORAGE_APP_STATE @ getStorageSuffix corrupt_full) = Some BadText"
    by code_simp
  have q: "items corrupt_full (STORAGE_QUIZ @ getStorageSuffix corrupt_full) = Some BadText"
    by code_simp
  have t: "items corrupt_full (STORAGE_TASKS @ getStorageSuffix corrupt_full) = Some BadText"
    by code_simp
  have r: "rejects corrupt_full (STORAGE_APP_STATE @ getStorageSuffix corrupt_full) x" for x
    by (simp add: corrupt_full_def)
  note inst = read_write_never_fail
    [of corrupt_full "Obj [(''exitPlanData'', Obj [(''a'', Num ''1'')])]"]
  from inst a have 1: "getAppState corrupt_full = default_state" by blast
  from inst q have 2: "getExitPlanData corrupt_full = Null" by blast
  from inst t have 3: "getTasks corrupt_full = Obj []" by blast
  from inst r have 4:
    "snd (saveAppState corrupt_full (Obj [(''exitPlanData'', Obj [(''a'', Num ''1'')])])) = False"
    by blast
  from a q t 1 2 3 4 show ?thesis by blast
qed

subsection \<open>The user directory\<close>

text \<open>Registration on a directory that is stored as a JSON object (or not stored, or
  unreadable, which \<open>getUsers\<close> reads as the empty object), on a medium that accepts the
  write of the directory and the write of the session: the record is stored under the key
  and the session is written.\<close>

lemma register_stores:
  assumes valid: "isValidEmail email"
    and pw: "8 \<le> length password"
    and ph: "phone = None \<or> (\<exists>p. phone = Some p \<and>
      (p = [] \<or> (10 \<le> length (filter is_digit p) \<and> length (filter is_digit p) \<le> 15)))"
    and dir: "getUsers s = Obj ps"
    and new: "\<not> truthy (lookup ps (trim (toLowerCase email)))"
    and acc_users: "\<not> rejects s STORAGE_USERS
        (JSON_stringify (Obj (AList.update (trim (toLowerCase email))
           (Obj [(''email'', Str (trim (toLowerCase email))),
                 (''password'', Str password),
                 (''name'', Str (name_or_User name)),
                 (''phone'', Str (trimmed phone)),
                 (''address'', Str (trimmed address)),
                 (''occupation'', Str (trimmed occupation)),
                 (''registeredAt'', Str now)]) ps)))"
    and acc_session: "\<not> rejects s STORAGE_CURRENT
        (JSON_stringify
           (Obj [(''email'', Str (trim (toLowerCase email))),
                 (''name'', Str (name_or_User name)),
                 (''phone'', Str (trimmed phone)),
                 (''address'', Str (trimmed address)),
                 (''occupation'', Str (trimmed occupation)),
                 (''isLoggedIn'', Bool True)]))"
  shows "\<exists>s'. register s now email password name phone address occupation = Inr (Success, s') \<and>
      get_prop (getUsers s') (trim (toLowerCase email)) =
        Inr (Obj [(''email'', Str (trim (toLowerCase email))),
                  (''password'', Str password),
                  (''name'', Str (name_or_User name)),
                  (''phone'', Str (trimmed phone)),
                  (''address'', Str (trimmed address)),
                  (''occupation'', Str (trimmed occupation)),
                  (''registeredAt'', Str now)]) \<and>
      getCurrentUser s' =
        Obj [(''email'', Str (trim (toLowerCase email))),
             (''name'', Str (name_or_User name)),
             (''phone'', Str (trimmed phone)),
             (''address'', Str (trimmed address)),
             (''occupation'', Str (trimmed occupation)),
             (''isLoggedIn'', Bool True)]"
proof -
  define key where "key = trim (toLowerCase email)"
  define entry where "entry =
     Obj [(''email'', Str key), (''password'', Str password),
          (''name'', Str (name_or_User name)), (''phone'', Str (trimmed phone)),
          (''address'', Str (trimmed address)), (''occupation'', Str (trimmed occupation)),
          (''registeredAt'', Str now)]"
  define ses where "ses =
     Obj [(''email'', Str key), (''name'', Str (name_or_User name)),
          (''phone'', Str (trimmed phone)), (''address'', Str (trimmed address)),
          (''occupation'', Str (trimmed occupation)), (''isLoggedIn'', Bool True)]"
  define s1 where "s1 = s\<lparr>items := (items s)(STORAGE_USERS \<mapsto>
     JSON_stringify (Obj (AList.update key entry ps)))\<rparr>"
  define s2 where "s2 = s1\<lparr>items := (items s1)(STORAGE_CURRENT \<mapsto> JSON_stringify ses)\<rparr>"
  have rec_json: "json_of entry = entry" by (simp add: entry_def)
  have ses_json: "json_of ses = ses" by (simp add: ses_def)
  have rec_def': "entry \<noteq> Undefined" by (simp add: entry_def)
  have existing: "get_prop (getUsers s) key = Inr (lookup ps key)" by (simp add: dir)
  have save: "saveUsers s (Obj (AList.update key entry ps)) = Inr s1"
    using acc_users by (simp add: saveUsers_def setItem_def s1_def key_def entry_def)
  have sess: "bind (get_prop (Obj (AList.update key entry ps)) key) (register_session key) =
      Inr ses"
    by (simp add: bind_def register_session_def entry_def ses_def)
  have cur: "setItem s1 STORAGE_CURRENT (JSON_stringify ses) = Inr s2"
    using acc_session by (simp add: setItem_def s1_def s2_def key_def ses_def)
  have reg: "register s now email password name phone address occupation = Inr (Success, s2)"
    using new valid pw isValidPhone_claim[OF ph] existing save sess cur
    by (auto simp: register_def Let_def key_def[symmetric] entry_def[symmetric]
          isValidPassword_def dir)
  have users: "getUsers s2 = json_of (Obj (AList.update key entry ps))"
    by (simp add: getUsers_def getItem_def s2_def s1_def JSON_stringify_def)
  have stored: "get_prop (getUsers s2) key = Inr entry"
    using lookup_json_update[OF rec_def', of key ps] by (simp add: users rec_json)
  have current: "getCurrentUser s2 = ses"
    by (simp add: getCurrentUser_def getCurrentUser_try_def getItem_def s2_def
          JSON_stringify_def ses_json)
       (simp add: ses_def)
  show ?thesis
    using reg stored current unfolding key_def entry_def ses_def by blast
qed

text \<open>A key that holds a record makes \<open>register\<close> fail before any other check.\<close>

lemma register_existing:
  assumes "get_prop (getUsers s) (trim (toLowerCase email)) = Inr r"
    and "truthy r"
    and "trim (toLowerCase email') = trim (toLowerCase email)"
  shows "register s now email' password name phone address occupation =
           Inr (Failure AccountExists, s)"
  using assms by (simp add: register_def Let_def)

text \<open>Registering twice: after a successful registration, a registration whose email has
  the same lower-case trimmed form fails with the duplicate error and changes nothing.\<close>

lemma register_twice:
  assumes "isValidEmail email" and "8 \<le> length password"
    and "phone = None \<or> (\<exists>p. phone = Some p \<and>
      (p = [] \<or> (10 \<le> length (filter is_digit p) \<and> length (filter is_digit p) \<le> 15)))"
    and "getUsers s = Obj ps"
    and "\<not> truthy (lookup ps (trim (toLowerCase email)))"
    and "\<forall>k t. \<not> rejects s k t"
    and "trim (toLowerCase email') = trim (toLowerCase email)"
  shows "\<exists>s'. register s now email password name phone address occupation = Inr (Success, s') \<and>
     register s' now' email' password' name' phone' address' occupation' =
       Inr (Failure AccountExists, s')"
proof -
  from assms(6) have a: "\<not> rejects s STORAGE_USERS x" and b: "\<not> rejects s STORAGE_CURRENT x"
    for x by simp_all
  from register_stores[OF assms(1-5) a b, of now name address occupation]
  obtain s' r where
    1: "register s now email password name phone address occupation = Inr (Success, s')"
    and 2: "get_prop (getUsers s') (trim (toLowerCase email)) = Inr r" and 3: "truthy r"
    by auto
  from register_existing[OF 2 3 assms(7)] 1 show ?thesis by blast
qed

text \<open>
  C4. The claim: for a valid email, a password of at least 8 characters and a phone that
  is empty or has 10 to 15 digits, when no record exists under the lower-case trimmed
  email, \<open>register\<close> returns success, persists the record and establishes the session.
  \<open>register\<close> has no try/catch and does not look at the shape of the stored directory.
  On a medium that refuses the write of the session item, it throws after the directory is
  written: the account exists and no session does. On a directory stored as the array
  \<open>[]\<close>, it returns success and establishes the session, but the record, assigned to the
  array as a named property, is not in what JSON.stringify prints: the directory read back
  has no record under the key.
\<close>

theorem register_refused_or_not_persisted:
  "isValidEmail ''ann@x.co'' \<and> 8 \<le> length ''password1'' \<and> isValidPhone None \<and>
   trim (toLowerCase ''ann@x.co'') = ''ann@x.co'' \<and>
   get_prop (getUsers refuses_session) ''ann@x.co'' = Inr Undefined \<and>
   isl (register refuses_session ''2026-01-01T00:00:00.000Z'' ''ann@x.co'' ''password1''
          None None None None) \<and>
   fst (projl (register refuses_session ''2026-01-01T00:00:00.000Z'' ''ann@x.co''
          ''password1'' None None None None)) = QuotaExceededError \<and>
   truthy (lookup (own_props (getUsers
     (snd (projl (register refuses_session ''2026-01-01T00:00:00.000Z'' ''ann@x.co''
          ''password1'' None None None None))))) ''ann@x.co'') \<and>
   getCurrentUser
     (snd (projl (register refuses_session ''2026-01-01T00:00:00.000Z'' ''ann@x.co''
          ''password1'' None None None None))) = Null \<and>
   get_prop (getUsers array_directory) ''ann@x.co'' = Inr Undefined \<and>
   \<not> isl (register array_directory ''2026-01-01T00:00:00.000Z'' ''ann@x.co'' ''password1''
          None None None None) \<and>
   fst (projr (register array_directory ''2026-01-01T00:00:00.000Z'' ''ann@x.co''
          ''password1'' None None None None)) = Success \<and>
   get_prop (getUsers
     (snd (projr (register array_directory ''2026-01-01T00:00:00.000Z'' ''ann@x.co''
          ''password1'' None None None None)))) ''ann@x.co'' = Inr Undefined \<and>
   get_prop (getCurrentUser
     (snd (projr (register array_directory ''2026-01-01T00:00:00.000Z'' ''ann@x.co''
          ''password1'' None None None None)))) ''email'' = Inr (Str ''ann@x.co'')"
  by code_simp

text \<open>
  C4, amended. For an email that passes \<open>isValidEmail\<close>, a password of at least 8
  characters and a phone that is left out, empty or has 10 to 15 digits, when the stored
  directory is a JSON object (or absent, or unreadable) that holds no record under the
  lower-case trimmed email, and the medium accepts the write of the directory with the new
  record and the write of the session: \<open>register\<close> returns success, the directory read
  back holds under that key the new record with \<open>registeredAt\<close> set to the current time,
  and \<open>getCurrentUser\<close> returns the logged-in session of that email.
\<close>

theorem register_success:
  assumes "isValidEmail email"
    and "8 \<le> length password"
    and "phone = None \<or> (\<exists>p. phone = Some p \<and>
      (p = [] \<or> (10 \<le> length (filter is_digit p) \<and> length (filter is_digit p) \<le> 15)))"
    and "getUsers s = Obj ps"
    and "\<not> truthy (lookup ps (trim (toLowerCase email)))"
    and "\<not> rejects s STORAGE_USERS
        (JSON_stringify (Obj (AList.update (trim (toLowerCase email))
           (Obj [(''email'', Str (trim (toLowerCase email))),
                 (''password'', Str password),
                 (''name'', Str (name_or_User name)),
                 (''phone'', Str (trimmed phone)),
                 (''address'', Str (trimmed address)),
                 (''occupation'', Str (trimmed occupation)),
                 (''registeredAt'', Str now)]) ps)))"
    and "\<not> rejects s STORAGE_CURRENT
        (JSON_stringify
           (Obj [(''email'', Str (trim (toLowerCase email))),
                 (''name'', Str (name_or_User name)),
                 (''phone'', Str (trimmed phone)),
                 (''address'', Str (trimmed address)),
                 (''occupation'', Str (trimmed occupation)),
                 (''isLoggedIn'', Bool True)]))"
  shows "\<exists>s'. register s now email password name phone address occupation = Inr (Success, s') \<and>
      get_prop (getUsers s') (trim (toLowerCase email)) =
        Inr (Obj [(''email'', Str (trim (toLowerCase email))),
                  (''password'', Str password),
                  (''name'', Str (name_or_User name)),
                  (''phone'', Str (trimmed phone)),
                  (''address'', Str (trimmed address)),
                  (''occupation'', Str (trimmed occupation)),
                  (''registeredAt'', Str now)]) \<and>
      getCurrentUser s' =
        Obj [(''email'', Str (trim (toLowerCase email))),
             (''name'', Str (name_or_User name)),
             (''phone'', Str (trimmed phone)),
             (''address'', Str (trimmed address)),
             (''occupation'', Str (trimmed occupation)),
             (''isLoggedIn'', Bool True)]"
  using assms by (rule register_stores)

theorem register_success_witness:
  "isValidEmail ''Ann@X.co'' \<and> 8 \<le> length ''password1'' \<and>
   10 \<le> length (filter is_digit ''613-555-0199'') \<and>
   length (filter is_digit ''613-555-0199'') \<le> 15 \<and>
   getUsers fresh = Obj [] \<and>
   \<not> truthy (lookup [] (trim (toLowerCase ''Ann@X.co''))) \<and>
   (\<exists>s'. register fresh ''2026-01-01T00:00:00.000Z'' ''Ann@X.co'' ''password1''
            (Some ''Ann'') (Some ''613-555-0199'') None None = Inr (Success, s') \<and>
      get_prop (getUsers s') ''ann@x.co'' =
        Inr (Obj [(''email'', Str ''ann@x.co''),
                  (''password'', Str ''password1''),
                  (''name'', Str ''Ann''),
                  (''phone'', Str ''613-555-0199''),
                  (''address'', Str []),
                  (''occupation'', Str []),
                  (''registeredAt'', Str ''2026-01-01T00:00:00.000Z'')]) \<and>
      getCurrentUser s' =
        Obj [(''email'', Str ''ann@x.co''),
             (''name'', Str ''Ann''),
             (''phone'', Str ''613-555-0199''),
             (''address'', Str []),
             (''occupation'', Str []),
             (''isLoggedIn'', Bool True)])"
proof -
  have h1: "isValidEmail ''Ann@X.co''" by code_simp
  have h2: "8 \<le> length ''password1''" by simp
  have d: "10 \<le> length (filter is_digit ''613-555-0199'') \<and>
      length (filter is_digit ''613-555-0199'') \<le> 15"
    by code_simp
  then have h3: "Some ''613-555-0199'' = None \<or> (\<exists>p. Some ''613-555-0199'' = Some p \<and>
      (p = [] \<or> (10 \<le> length (filter is_digit p) \<and> length (filter is_digit p) \<le> 15)))"
    by blast
  have h4: "getUsers fresh = Obj []" by code_simp
  have h5: "\<not> truthy (lookup [] (trim (toLowerCase ''Ann@X.co'')))" by simp
  have h6: "\<not> rejects fresh STORAGE_USERS x" and h7: "\<not> rejects fresh STORAGE_CURRENT x"
    for x by (simp_all add: fresh_def)
  have k: "trim (toLowerCase ''Ann@X.co'') = ''ann@x.co''" by code_simp
  have n: "name_or_User (Some ''Ann'') = ''Ann''" by code_simp
  have p: "trimmed (Some ''613-555-0199'') = ''613-555-0199''" by code_simp
  have e: "trimmed None = []" by code_simp
  from register_success [OF h1 h2 h3 h4 h5 h6 h7,
      of "''2026-01-01T00:00:00.000Z''" "Some ''Ann''" None None]
  have "\<exists>s'. register fresh ''2026-01-01T00:00:00.000Z'' ''Ann@X.co'' ''password1''
            (Some ''Ann'') (Some ''613-555-0199'') None None = Inr (Success, s') \<and>
      get_prop (getUsers s') ''ann@x.co'' =
        Inr (Obj [(''email'', Str ''ann@x.co''),
                  (''password'', Str ''password1''),
                  (''name'', Str ''Ann''),
                  (''phone'', Str ''613-555-0199''),
                  (''address'', Str []),
                  (''occupation'', Str []),
                  (''registeredAt'', Str ''2026-01-01T00:00:00.000Z'')]) \<and>
      getCurrentUser s' =
        Obj [(''email'', Str ''ann@x.co''),
             (''name'', Str ''Ann''),
             (''phone'', Str ''613-555-0199''),
             (''address'', Str []),
             (''occupation'', Str []),
             (''isLoggedIn'', Bool True)]"
    unfolding k n p e .
  with h1 h2 d h4 h5 show ?thesis by blast
qed

text \<open>
  C6. When the directory holds a record under the lower-case trimmed form of an email,
  \<open>register\<close> with any email of the same lower-case trimmed form (another casing, white
  space before or after) fails with the duplicate-email error, whatever the password and
  the other fields are, and leaves the storage as it is.
\<close>

theorem register_duplicate:
  assumes "get_prop (getUsers s) (trim (toLowerCase email)) = Inr r"
    and "truthy r"
    and "trim (toLowerCase email') = trim (toLowerCase email)"
  shows "register s now email' password name phone address occupation =
           Inr (Failure AccountExists, s)"
  using assms by (rule register_existing)

theorem register_duplicate_witness:
  "get_prop (getUsers two_accounts) (trim (toLowerCase ''ann@x.co'')) =
     Inr (Obj [(''email'', Str ''ann@x.co''), (''password'', Str ''password1''),
               (''name'', Str ''Ann''), (''phone'', Str []), (''address'', Str []),
               (''occupation'', Str ''student''),
               (''registeredAt'', Str ''2026-01-01T00:00:00.000Z'')]) \<and>
   trim (toLowerCase ''  ANN@x.Co '') = trim (toLowerCase ''ann@x.co'') \<and>
   register two_accounts ''2026-02-01T00:00:00.000Z'' ''  ANN@x.Co '' ''pw'' None None None None =
     Inr (Failure AccountExists, two_accounts)"
proof -
  have h1: "get_prop (getUsers two_accounts) (trim (toLowerCase ''ann@x.co'')) =
     Inr (Obj [(''email'', Str ''ann@x.co''), (''password'', Str ''password1''),
               (''name'', Str ''Ann''), (''phone'', Str []), (''address'', Str []),
               (''occupation'', Str ''student''),
               (''registeredAt'', Str ''2026-01-01T00:00:00.000Z'')])"
    by code_simp
  have h2: "truthy (Obj [(''email'', Str ''ann@x.co''), (''password'', Str ''password1''),
               (''name'', Str ''Ann''), (''phone'', Str []), (''address'', Str []),
               (''occupation'', Str ''student''),
               (''registeredAt'', Str ''2026-01-01T00:00:00.000Z'')])"
    by simp
  have h3: "trim (toLowerCase ''  ANN@x.Co '') = trim (toLowerCase ''ann@x.co'')"
    by code_simp
  from register_duplicate [OF h1 h2 h3] h1 h3 show ?thesis by blast
qed

text \<open>
  C5. For a logged-in session (with its email a string), \<open>updateUserProfile\<close> with a new
  email whose lower-case trimmed form differs from the session's and holds a record in the
  directory returns the email-taken error and leaves the storage, and so both records, as
  they are. The new key is a valid email, as every key is that \<open>register\<close> writes.
\<close>

theorem updateUserProfile_email_taken:
  assumes "truthy (getCurrentUser s)"
    and "get_prop (getCurrentUser s) ''email'' = Inr (Str cur)"
    and "u_email updates = Some e" and "e \<noteq> []"
    and "trim (toLowerCase e) \<noteq> trim (toLowerCase cur)"
    and "isValidEmail (trim (toLowerCase e))"
    and "get_prop (getUsers s) (trim (toLowerCase e)) = Inr r" and "truthy r"
  shows "updateUserProfile s updates = Inr (Failure EmailTaken, s)"
  using assms by (simp add: updateUserProfile_def Let_def bind_def)

theorem updateUserProfile_email_taken_witness:
  "truthy (getCurrentUser two_accounts) \<and>
   get_prop (getCurrentUser two_accounts) ''email'' = Inr (Str ''bob@x.co'') \<and>
   u_email take_ann = Some '' Ann@X.co'' \<and>
   trim (toLowerCase '' Ann@X.co'') = ''ann@x.co'' \<and>
   trim (toLowerCase ''bob@x.co'') = ''bob@x.co'' \<and>
   isValidEmail ''ann@x.co'' \<and>
   truthy (lookup (own_props (getUsers two_accounts)) ''ann@x.co'') \<and>
   updateUserProfile two_accounts take_ann = Inr (Failure EmailTaken, two_accounts)"
proof -
  have h1: "truthy (getCurrentUser two_accounts)" by code_simp
  have h2: "get_prop (getCurrentUser two_accounts) ''email'' = Inr (Str ''bob@x.co'')"
    by code_simp
  have h3: "u_email take_ann = Some '' Ann@X.co''" by (simp add: take_ann_def)
  have h4: "'' Ann@X.co'' \<noteq> []" by simp
  have k: "trim (toLowerCase '' Ann@X.co'') = ''ann@x.co''" by code_simp
  have c: "trim (toLowerCase ''bob@x.co'') = ''bob@x.co''" by code_simp
  have h5: "trim (toLowerCase '' Ann@X.co'') \<noteq> trim (toLowerCase ''bob@x.co'')"
    unfolding k c by simp
  have v: "isValidEmail ''ann@x.co''" by code_simp
  then have h6: "isValidEmail (trim (toLowerCase '' Ann@X.co''))" unfolding k .
  have h7: "get_prop (getUsers two_accounts) (trim (toLowerCase '' Ann@X.co'')) =
      Inr (lookup (own_props (getUsers two_accounts)) ''ann@x.co'')"
    by code_simp
  have h8: "truthy (lookup (own_props (getUsers two_accounts)) ''ann@x.co'')"
    by code_simp
  from updateUserProfile_email_taken [OF h1 h2 h3 h4 h5 h6 h7 h8] h1 h2 h3 k c v h8
  show ?thesis by blast
qed

end
